theory Spec2Isabelle
  imports Complex_Main "HOL-Library.Sublist"
begin

section \<open>Python strings (ASCII text as \<open>char list\<close>)\<close>

text \<open>
  Query and passage texts are modelled as \<open>string\<close>, restricted to ASCII: case folding,
  whitespace and the regular-expression word class are the ASCII ones.
\<close>

definition ascii_upper :: string where
  "ascii_upper = ''ABCDEFGHIJKLMNOPQRSTUVWXYZ''"

definition ascii_lower :: string where
  "ascii_lower = ''abcdefghijklmnopqrstuvwxyz''"

definition lower_char :: "char \<Rightarrow> char" where
  "lower_char c = (case map_of (zip ascii_upper ascii_lower) c of Some d \<Rightarrow> d | None \<Rightarrow> c)"

text \<open>\<open>str.lower()\<close>\<close>

definition lower :: "string \<Rightarrow> string" where
  "lower s = map lower_char s"

text \<open>\<open>str.isspace()\<close> on one ASCII character: tab, LF, VT, FF, CR, FS, GS, RS, US, space.\<close>

definition is_space :: "char \<Rightarrow> bool" where
  "is_space c = (c \<in> set [CHR 0x09, CHR 0x0A, CHR 0x0B, CHR 0x0C, CHR 0x0D,
                           CHR 0x1C, CHR 0x1D, CHR 0x1E, CHR 0x1F, CHR 0x20])"

text \<open>\<open>str.strip()\<close>\<close>

definition strip :: "string \<Rightarrow> string" where
  "strip s = rev (dropWhile is_space (rev (dropWhile is_space s)))"

text \<open>\<open>str.split()\<close> with no argument: maximal runs of non-whitespace characters.\<close>

fun split_go :: "string \<Rightarrow> string \<Rightarrow> string list" where
  "split_go w [] = (if w = [] then [] else [w])"
| "split_go w (c # cs) =
     (if is_space c then (if w = [] then [] else [w]) @ split_go [] cs
      else split_go (w @ [c]) cs)"

definition split :: "string \<Rightarrow> string list" where
  "split s = split_go [] s"

text \<open>\<open>sub in s\<close> on strings: \<open>sub\<close> occurs as a contiguous substring of \<open>s\<close>.\<close>

fun py_in :: "string \<Rightarrow> string \<Rightarrow> bool" where
  "py_in sub [] = (sub = [])"
| "py_in sub (c # cs) = (prefix sub (c # cs) \<or> py_in sub cs)"

text \<open>\<open>sep.join(parts)\<close>\<close>

fun join :: "string \<Rightarrow> string list \<Rightarrow> string" where
  "join sep [] = []"
| "join sep [p] = p"
| "join sep (p # q # ps) = p @ sep @ join sep (q # ps)"

text \<open>\<open>s.replace(old, new)\<close> for a one-character \<open>old\<close>.\<close>

definition replace_char :: "char \<Rightarrow> string \<Rightarrow> string \<Rightarrow> string" where
  "replace_char old new s = concat (map (\<lambda>c. if c = old then new else [c]) s)"

text \<open>\<open>str(n)\<close> for integers.\<close>

definition digit_char :: "nat \<Rightarrow> char" where
  "digit_char d = ''0123456789'' ! (d mod 10)"

function str_nat :: "nat \<Rightarrow> string" where
  "str_nat n = (if n < 10 then [digit_char n] else str_nat (n div 10) @ [digit_char (n mod 10)])"
  by pat_completeness auto
termination
  by (relation "measure id") auto

definition str_int :: "int \<Rightarrow> string" where
  "str_int i = (if i < 0 then CHR ''-'' # str_nat (nat (- i)) else str_nat (nat i))"

section \<open>Query normaliser (\<open>services/query_utils.py\<close>)\<close>

text \<open>The class \<open>\w\<close> of the regular expressions, on ASCII.\<close>

definition is_word :: "char \<Rightarrow> bool" where
  "is_word c = (c \<in> set (ascii_lower @ ascii_upper @ ''0123456789_''))"

text \<open>
  Every pattern of \<open>COMMON_FIXES\<close> has the shape \<open>\bW\b\<close> where \<open>W\<close> starts and ends with a
  word character and matches word characters only, so a match is exactly one maximal run of
  word characters. \<open>map_words f\<close> rewrites every maximal run \<open>w\<close> of word characters to
  \<open>f w\<close> and keeps the other characters, which is what \<open>re.sub\<close> does for such a pattern
  when \<open>f\<close> replaces the runs that match.
\<close>

function map_words :: "(string \<Rightarrow> string) \<Rightarrow> string \<Rightarrow> string" where
  "map_words f [] = []"
| "map_words f (c # cs) =
     (if is_word c
      then f (takeWhile is_word (c # cs)) @ map_words f (dropWhile is_word (c # cs))
      else c # map_words f cs)"
  by pat_completeness auto
termination
  by (relation "measure (\<lambda>(f, s). length s)")
     (auto simp: less_Suc_eq_le length_dropWhile_le)

text \<open>
  \<open>re.sub(pat, repl, q, flags=re.IGNORECASE)\<close> for a pattern \<open>\b(w1|...|wn)\b\<close> given by the
  lower-case words it matches.
\<close>

definition sub_tok :: "string list \<Rightarrow> string \<Rightarrow> string \<Rightarrow> string" where
  "sub_tok pat repl w = (if lower w \<in> set pat then repl else w)"

definition re_sub :: "string list \<Rightarrow> string \<Rightarrow> string \<Rightarrow> string" where
  "re_sub pat repl q = map_words (sub_tok pat repl) q"

text \<open>
  \<open>COMMON_FIXES\<close>, in the order of the dictionary: \<open>\bintenship\b\<close>, \<open>\bintership\b\<close> and
  \<open>\bproj(?:ect)?s?\b\<close> (the words proj, projs, project, projects).
\<close>

definition COMMON_FIXES :: "(string list \<times> string) list" where
  "COMMON_FIXES =
     [([''intenship''], ''internship''),
      ([''intership''], ''internship''),
      ([''proj'', ''projs'', ''project'', ''projects''], ''project'')]"

text \<open>\<open>normalize_query\<close>; the argument \<open>None\<close> is Python's \<open>None\<close> (\<open>q or ""\<close>).\<close>

definition normalize_query :: "string option \<Rightarrow> string" where
  "normalize_query q =
     foldl (\<lambda>q (pat, repl). re_sub pat repl q)
       (strip (case q of None \<Rightarrow> [] | Some s \<Rightarrow> s)) COMMON_FIXES"

text \<open>Auxiliary notions for reasoning about the normaliser.\<close>

definition word :: "string \<Rightarrow> bool" where
  "word w = (w \<noteq> [] \<and> (\<forall>c \<in> set w. is_word c))"

definition word_fun :: "(string \<Rightarrow> string) \<Rightarrow> bool" where
  "word_fun f = (\<forall>w. word w \<longrightarrow> word (f w))"

definition stripped :: "string \<Rightarrow> bool" where
  "stripped s = (s = [] \<or> (\<not> is_space (hd s) \<and> \<not> is_space (last s)))"

text \<open>The three fixes of \<open>COMMON_FIXES\<close> applied to one word, in order.\<close>

definition fix_word :: "string \<Rightarrow> string" where
  "fix_word w =
     sub_tok [''proj'', ''projs'', ''project'', ''projects''] ''project''
       (sub_tok [''intership''] ''internship'' (sub_tok [''intenship''] ''internship'' w))"

section \<open>Cache service (\<open>services/cache_service.py\<close>)\<close>

text \<open>
  One cache entry: the dictionary stored under a key. \<open>set_search_results\<close> stores the key
  \<open>"results"\<close> and \<open>set_chat_response\<close> the key \<open>"chat_response"\<close>; a key the entry does not
  have reads as \<open>None\<close> (\<open>dict.get\<close>).
\<close>

record ('r, 'c) cache_entry =
  results :: "'r option"
  chat_response :: "'c option"
  timestamp :: real
  entry_query :: string
  entry_document_id :: string
  entry_top_k :: int

text \<open>
  The service object. \<open>cache_ttl\<close> and \<open>enabled\<close> are read from \<open>settings.CACHE_TTL\<close> and
  \<open>settings.ENABLE_CACHING\<close> when the object is created.
\<close>

record ('r, 'c) cache_service =
  cache :: "string \<rightharpoonup> ('r, 'c) cache_entry"
  cache_ttl :: real
  enabled :: bool

text \<open>
  \<open>_generate_cache_key\<close>. The parameter \<open>digest\<close> stands for the MD5 hex digest of the JSON
  dump (keys sorted) of the dictionary with the lower-cased, stripped query, the document id
  and \<open>top_k\<close>.
\<close>

definition generate_cache_key ::
  "(string \<times> string \<times> int \<Rightarrow> string) \<Rightarrow> string \<Rightarrow> string \<Rightarrow> int \<Rightarrow> string" where
  "generate_cache_key digest query document_id top_k =
     digest (strip (lower query), document_id, top_k)"

text \<open>\<open>_is_expired\<close>; \<open>now\<close> is the value of \<open>time.time()\<close>. A missing entry counts as expired.\<close>

definition is_expired ::
  "('r, 'c) cache_service \<Rightarrow> real \<Rightarrow> ('r, 'c) cache_entry option \<Rightarrow> bool" where
  "is_expired svc now cache_entry =
     (case cache_entry of
        None \<Rightarrow> True
      | Some e \<Rightarrow> now - timestamp e > cache_ttl svc)"

text \<open>\<open>get_search_results\<close>: the value returned and the service after the call.\<close>

definition get_search_results ::
  "(string \<times> string \<times> int \<Rightarrow> string) \<Rightarrow> ('r, 'c) cache_service \<Rightarrow> real \<Rightarrow>
   string \<Rightarrow> string \<Rightarrow> int \<Rightarrow> 'r option \<times> ('r, 'c) cache_service" where
  "get_search_results digest svc now query document_id top_k =
     (if \<not> enabled svc then (None, svc)
      else
        let cache_key = generate_cache_key digest query document_id top_k;
            cache_entry = cache svc cache_key
        in case cache_entry of
             Some e \<Rightarrow>
               if \<not> is_expired svc now cache_entry then (results e, svc)
               else (None, svc\<lparr>cache := (cache svc)(cache_key := None)\<rparr>)
           | None \<Rightarrow> (None, svc))"

text \<open>\<open>set_search_results\<close>\<close>

definition set_search_results ::
  "(string \<times> string \<times> int \<Rightarrow> string) \<Rightarrow> ('r, 'c) cache_service \<Rightarrow> real \<Rightarrow>
   string \<Rightarrow> string \<Rightarrow> int \<Rightarrow> 'r \<Rightarrow> ('r, 'c) cache_service" where
  "set_search_results digest svc now query document_id top_k res =
     (if \<not> enabled svc then svc
      else
        let cache_key = generate_cache_key digest query document_id top_k
        in svc\<lparr>cache := (cache svc)(cache_key \<mapsto>
             \<lparr>results = Some res, chat_response = None, timestamp = now,
              entry_query = query, entry_document_id = document_id, entry_top_k = top_k\<rparr>)\<rparr>)"

text \<open>\<open>get_chat_response\<close>\<close>

definition get_chat_response ::
  "(string \<times> string \<times> int \<Rightarrow> string) \<Rightarrow> ('r, 'c) cache_service \<Rightarrow> real \<Rightarrow>
   string \<Rightarrow> string \<Rightarrow> int \<Rightarrow> 'c option \<times> ('r, 'c) cache_service" where
  "get_chat_response digest svc now query document_id top_k =
     (if \<not> enabled svc then (None, svc)
      else
        let cache_key = generate_cache_key digest query document_id top_k;
            cache_entry = cache svc cache_key
        in case cache_entry of
             Some e \<Rightarrow>
               if \<not> is_expired svc now cache_entry then (chat_response e, svc)
               else (None, svc\<lparr>cache := (cache svc)(cache_key := None)\<rparr>)
           | None \<Rightarrow> (None, svc))"

text \<open>\<open>set_chat_response\<close>\<close>

definition set_chat_response ::
  "(string \<times> string \<times> int \<Rightarrow> string) \<Rightarrow> ('r, 'c) cache_service \<Rightarrow> real \<Rightarrow>
   string \<Rightarrow> string \<Rightarrow> int \<Rightarrow> 'c \<Rightarrow> ('r, 'c) cache_service" where
  "set_chat_response digest svc now query document_id top_k response =
     (if \<not> enabled svc then svc
      else
        let cache_key = generate_cache_key digest query document_id top_k
        in svc\<lparr>cache := (cache svc)(cache_key \<mapsto>
             \<lparr>results = None, chat_response = Some response, timestamp = now,
              entry_query = query, entry_document_id = document_id, entry_top_k = top_k\<rparr>)\<rparr>)"

text \<open>\<open>clear_cache\<close>\<close>

definition clear_cache :: "('r, 'c) cache_service \<Rightarrow> ('r, 'c) cache_service" where
  "clear_cache svc = svc\<lparr>cache := Map.empty\<rparr>"

section \<open>Exceptions, dictionaries and sorting\<close>

text \<open>
  Python exceptions as values. The three API errors are the exception classes of
  \<open>openrouter_service.py\<close>; \<open>Exception\<close> stands for any other exception, with its message.
\<close>

datatype exn =
    ZeroDivisionError
  | RateLimitError string
  | AuthenticationError string
  | APIError string
  | Exception string

text \<open>
  A dictionary entry read with \<open>dict.get\<close>: the key is missing, its value is \<open>None\<close>, or it
  has a value.
\<close>

datatype 'a field = Missing | Null | Val 'a

text \<open>\<open>d.get(key, default)\<close>: the default only replaces a missing key.\<close>

definition get_default :: "'a field \<Rightarrow> 'a \<Rightarrow> 'a field" where
  "get_default f dflt = (case f of Missing \<Rightarrow> Val dflt | Null \<Rightarrow> Null | Val v \<Rightarrow> Val v)"

text \<open>\<open>d.get(key) or ""\<close>\<close>

definition or_empty :: "string field \<Rightarrow> string" where
  "or_empty f = (case f of Val s \<Rightarrow> s | _ \<Rightarrow> [])"

text \<open>The value \<open>meta.get(key)\<close> as it is stored in a result dictionary.\<close>

definition of_option :: "'a option \<Rightarrow> 'a field" where
  "of_option v = (case v of None \<Rightarrow> Null | Some x \<Rightarrow> Val x)"

text \<open>
  \<open>sorted(xs, key=key, reverse=True)\<close> and \<open>list.sort(key=key, reverse=True)\<close>: descending by
  key, and elements with equal keys stay in their original order.
\<close>

definition py_sorted_desc :: "('a \<Rightarrow> real) \<Rightarrow> 'a list \<Rightarrow> 'a list" where
  "py_sorted_desc key xs = sort_key (\<lambda>x. - key x) xs"

section \<open>Vector store adapter (\<open>services/lc_vector_store.py\<close>)\<close>

text \<open>
  A LangChain document: its text and the metadata entries the services read
  (\<open>None\<close> is what \<open>meta.get(key)\<close> returns for an absent key).
\<close>

record lc_document =
  page_content :: string
  md_document_id :: "string option"
  md_page_number :: "int option"
  md_filename :: "string option"
  md_chunk_id :: "int option"
  md_section :: "string option"

text \<open>A raw score of the store: a number (\<open>int\<close> or \<open>float\<close>) or some other object.\<close>

datatype raw_score = Num real | NonNum

text \<open>
  The external vector store: \<open>similarity_search_with_score(query, k, filter)\<close> and the
  retriever's \<open>invoke(query)\<close> for the search arguments \<open>k\<close> and \<open>filter\<close>. Either call may
  raise.
\<close>

record vector_store =
  similarity_search_with_score ::
    "string \<Rightarrow> int \<Rightarrow> string option \<Rightarrow> exn + (lc_document \<times> raw_score) list"
  retriever_invoke :: "string \<Rightarrow> int \<Rightarrow> string option \<Rightarrow> exn + lc_document list"

text \<open>\<open>similarity_search\<close>\<close>

definition similarity_search ::
  "vector_store \<Rightarrow> string \<Rightarrow> int \<Rightarrow> string option \<Rightarrow> exn + lc_document list" where
  "similarity_search vs query k metadata_filter = retriever_invoke vs query k metadata_filter"

text \<open>
  The similarity of one raw score before clamping (the body of the loop in
  \<open>similarity_search_with_similarity\<close>). The division \<open>1.0 / (1.0 + score)\<close> raises
  \<open>ZeroDivisionError\<close> when \<open>score\<close> is \<open>-1\<close>.
\<close>

definition raw_similarity :: "raw_score \<Rightarrow> exn + real" where
  "raw_similarity score =
     (case score of
        Num x \<Rightarrow>
          if 0 \<le> x \<and> x \<le> 1 then Inr x
          else if 1 + x = 0 then Inl ZeroDivisionError
          else Inr (1 / (1 + x))
      | NonNum \<Rightarrow> Inr 0)"

definition clamp01 :: "real \<Rightarrow> real" where
  "clamp01 sim = (let sim' = (if sim < 0 then 0 else sim) in if sim' > 1 then 1 else sim')"

text \<open>The loop over the scored results; it stops at the first exception.\<close>

fun normalized_results ::
  "(lc_document \<times> raw_score) list \<Rightarrow> exn + (lc_document \<times> real) list" where
  "normalized_results [] = Inr []"
| "normalized_results ((doc, score) # rest) =
     (case raw_similarity score of
        Inl e \<Rightarrow> Inl e
      | Inr sim \<Rightarrow>
          (case normalized_results rest of
             Inl e \<Rightarrow> Inl e
           | Inr normalized \<Rightarrow> Inr ((doc, clamp01 sim) # normalized)))"

text \<open>The fallback: similarity from the retriever's rank, \<open>1.0 - idx / total\<close>.\<close>

definition ranked :: "lc_document list \<Rightarrow> (lc_document \<times> real) list" where
  "ranked docs =
     (let total = max 1 (length docs)
      in map (\<lambda>(idx, doc). (doc, 1 - real idx / real total)) (zip [0..<length docs] docs))"

text \<open>
  \<open>similarity_search_with_similarity\<close>. The first argument is the result of
  \<open>get_vector_store()\<close>, which is called outside the \<open>try\<close> block. Each returned pair is the
  dictionary \<open>{"doc": doc, "similarity": sim}\<close>.
\<close>

definition similarity_search_with_similarity ::
  "exn + vector_store \<Rightarrow> string \<Rightarrow> int \<Rightarrow> string option \<Rightarrow> exn + (lc_document \<times> real) list" where
  "similarity_search_with_similarity store query k metadata_filter =
     (case store of
        Inl e \<Rightarrow> Inl e
      | Inr vs \<Rightarrow>
          let native =
                (case similarity_search_with_score vs query k metadata_filter of
                   Inl e \<Rightarrow> Inl e
                 | Inr res \<Rightarrow> normalized_results res);
              fallback =
                (case similarity_search vs query k metadata_filter of
                   Inl e \<Rightarrow> Inl e
                 | Inr docs \<Rightarrow> Inr (ranked docs))
          in case native of
               Inr normalized \<Rightarrow> if normalized \<noteq> [] then Inr normalized else fallback
             | Inl e \<Rightarrow> fallback)"


section \<open>Document service (\<open>services/document_service.py\<close>)\<close>

text \<open>
  A search result: the dictionary both retrieval paths return. The fields are the keys
  \<open>"text"\<close>, \<open>"document_id"\<close>, \<open>"page_number"\<close>, \<open>"score"\<close>, \<open>"filename"\<close>, \<open>"chunk_id"\<close>,
  \<open>"section"\<close> and \<open>"_id"\<close>. The text is a string in both paths (a document's \<open>page_content\<close>,
  a chunk's \<open>text\<close>), and both paths set the score.
\<close>

record search_result =
  r_text :: string
  r_document_id :: "string field"
  r_page_number :: "int field"
  r_score :: real
  r_filename :: "string field"
  r_chunk_id :: "int field"
  r_section :: "string field"
  r_oid :: "string field"

text \<open>The dictionary built from one item of the vector search.\<close>

definition vector_result :: "lc_document \<times> real \<Rightarrow> search_result" where
  "vector_result item =
     (case item of (doc, sim) \<Rightarrow>
        \<lparr>r_text = page_content doc,
         r_document_id = of_option (md_document_id doc),
         r_page_number = of_option (md_page_number doc),
         r_score = sim,
         r_filename = of_option (md_filename doc),
         r_chunk_id = of_option (md_chunk_id doc),
         r_section = of_option (md_section doc),
         r_oid = Missing\<rparr>)"

text \<open>The local function \<open>bonus\<close> of \<open>search_documents\<close>; \<open>q\<close> is the lower-cased query.\<close>

definition bonus :: "string \<Rightarrow> search_result \<Rightarrow> real" where
  "bonus q r =
     (let s = lower (or_empty (r_section r));
          t = lower (r_text r);
          b0 = 0;
          b1 = (if py_in ''project'' q
                then (let b = (if py_in ''project'' s \<or> py_in ''project'' t then b0 + 2 / 10 else b0)
                      in if py_in ''internship'' s \<or> py_in ''internship'' t then b - 1 / 10 else b)
                else b0);
          b2 = (if py_in ''internship'' q
                then (let b = (if py_in ''internship'' s \<or> py_in ''internship'' t then b1 + 2 / 10 else b1)
                      in if py_in ''project'' s \<or> py_in ''project'' t then b - 1 / 10 else b)
                else b1)
      in b2)"

text \<open>
  The MongoDB side of the fallback search: the chunks and documents collections, and the
  server's regular-expression engine (\<open>regex pat\<close> compiles \<open>pat\<close> with option \<open>i\<close> to a
  predicate on texts, or raises for a pattern it rejects).
\<close>

record mongo_chunk =
  c_oid :: string
  c_document_id :: string
  c_chunk_id :: int
  c_text :: string
  c_page_number :: "int option"

record mongo_document =
  d_document_id :: string
  d_filename :: string

record database =
  chunks_collection :: "mongo_chunk list"
  documents_collection :: "mongo_document list"
  regex :: "string \<Rightarrow> exn + (string \<Rightarrow> bool)"

text \<open>The list \<open>search_patterns\<close> and the combined \<open>search_pattern\<close>.\<close>

definition search_patterns :: "string \<Rightarrow> string list" where
  "search_patterns query =
     (let query_words = split (lower query)
      in [replace_char CHR '' '' (CHR 0x5C # ''s+'') query, query] @ query_words @
         (if length query_words > 1
          then [concat query_words, join ''-'' query_words, join ''_'' query_words]
          else []))"

definition search_pattern :: "string \<Rightarrow> string" where
  "search_pattern query = join ''|'' (filter (\<lambda>p. p \<noteq> []) (search_patterns query))"

text \<open>The patterns of \<open>search_filters\<close>, each a case-insensitive \<open>$regex\<close> on the text.\<close>

definition search_filters :: "string \<Rightarrow> string list" where
  "search_filters query =
     (let query_words = split (lower query)
      in search_pattern query # (if length query_words > 1 then query_words else []))"

fun compile_all ::
  "(string \<Rightarrow> exn + (string \<Rightarrow> bool)) \<Rightarrow> string list \<Rightarrow> exn + (string \<Rightarrow> bool) list" where
  "compile_all rx [] = Inr []"
| "compile_all rx (p # ps) =
     (case rx p of
        Inl e \<Rightarrow> Inl e
      | Inr m \<Rightarrow> (case compile_all rx ps of Inl e \<Rightarrow> Inl e | Inr ms \<Rightarrow> Inr (m # ms)))"

text \<open>
  The stages \<open>$lookup\<close>, \<open>$addFields\<close> and \<open>$project\<close> on one matched chunk: the score is the
  constant 0.8 and the file name is that of the first document with the chunk's document
  id, if there is one.
\<close>

definition project_chunk :: "mongo_document list \<Rightarrow> mongo_chunk \<Rightarrow> search_result" where
  "project_chunk docs c =
     \<lparr>r_text = c_text c,
      r_document_id = Val (c_document_id c),
      r_page_number = of_option (c_page_number c),
      r_score = 8 / 10,
      r_filename =
        (case filter (\<lambda>d. d_document_id d = c_document_id c) docs of
           [] \<Rightarrow> Missing
         | d # _ \<Rightarrow> Val (d_filename d)),
      r_chunk_id = Val (c_chunk_id c),
      r_section = Missing,
      r_oid = Val (c_oid c)\<rparr>"

text \<open>
  The body of the \<open>try\<close> block of \<open>_fallback_text_search\<close>. The first argument is the
  database as the aggregation finds it, or the exception the driver raises. The server
  rejects a \<open>$limit\<close> that is not positive; \<open>to_list(length=top_k)\<close> keeps at most \<open>top_k\<close>
  results of the at most \<open>top_k * 2\<close> the pipeline yields.
\<close>

definition fallback_body ::
  "exn + database \<Rightarrow> string \<Rightarrow> string option \<Rightarrow> int \<Rightarrow> exn + search_result list" where
  "fallback_body db query document_id top_k =
     (case db of
        Inl e \<Rightarrow> Inl e
      | Inr d \<Rightarrow>
          (case compile_all (regex d) (search_filters query) of
             Inl e \<Rightarrow> Inl e
           | Inr ms \<Rightarrow>
               if top_k * 2 \<le> 0 then Inl (Exception ''the limit must be positive'')
               else
                 let in_scope = (\<lambda>c. case document_id of
                                        None \<Rightarrow> True
                                      | Some i \<Rightarrow> i = [] \<or> c_document_id c = i);
                     matched = filter (\<lambda>c. list_ex (\<lambda>m. m (c_text c)) ms \<and> in_scope c)
                                 (chunks_collection d);
                     projected = map (project_chunk (documents_collection d)) matched
                 in Inr (take (nat top_k) (take (nat (top_k * 2)) projected))))"

text \<open>\<open>_fallback_text_search\<close>: any exception of the body is caught and gives the empty list.\<close>

definition document_fallback_text_search ::
  "exn + database \<Rightarrow> string \<Rightarrow> string option \<Rightarrow> int \<Rightarrow> exn + search_result list" where
  "document_fallback_text_search db query document_id top_k =
     (case fallback_body db query document_id top_k of
        Inl e \<Rightarrow> Inr []
      | Inr res \<Rightarrow> Inr res)"

text \<open>The metadata filter of the vector search: none for a missing or empty document id.\<close>

definition filter_query :: "string option \<Rightarrow> string option" where
  "filter_query document_id =
     (case document_id of None \<Rightarrow> None | Some i \<Rightarrow> if i = [] then None else Some i)"

text \<open>
  The inner \<open>try\<close> block of \<open>search_documents\<close>: the reranked vector results when there are
  any (\<open>Some\<close>), nothing (\<open>None\<close>) when the vector search found none, or the exception raised.
\<close>

definition vector_attempt ::
  "exn + vector_store \<Rightarrow> string \<Rightarrow> string option \<Rightarrow> int \<Rightarrow> exn + search_result list option" where
  "vector_attempt store query document_id top_k =
     (case similarity_search_with_similarity store query top_k (filter_query document_id) of
        Inl e \<Rightarrow> Inl e
      | Inr res \<Rightarrow>
          let vector_results = map vector_result res
          in if vector_results \<noteq> []
             then Inr (Some (py_sorted_desc (\<lambda>r. r_score r + bonus (lower query) r) vector_results))
             else Inr None)"

text \<open>\<open>search_documents\<close>, with both \<open>try\<close> blocks.\<close>

definition search_documents ::
  "exn + vector_store \<Rightarrow> exn + database \<Rightarrow> string \<Rightarrow> string option \<Rightarrow> int \<Rightarrow>
   exn + search_result list" where
  "search_documents store db query document_id top_k =
     (let body =
        (case vector_attempt store query document_id top_k of
           Inr (Some vector_results) \<Rightarrow> Inr vector_results
         | Inr None \<Rightarrow> document_fallback_text_search db query document_id top_k
         | Inl e \<Rightarrow> document_fallback_text_search db query document_id top_k)
      in case body of
           Inl e \<Rightarrow> Inr []
         | Inr res \<Rightarrow> Inr res)"

section \<open>Course-content search (\<open>services/vector_search.py\<close>)\<close>


section \<open>Language detection (\<open>utils/lang.py\<close>)\<close>

text \<open>
  \<open>detect_language_code\<close> on ASCII text: no character lies in the Devanagari or Tamil
  block, so the result comes from the romanised word lists.
\<close>

definition roman_hi :: "string list" where
  "roman_hi = [''hai'', ''kitna'', ''kitni'', ''kya'', ''kyun'', ''kaun'', ''kahan'', ''mein'',
               ''hain'', ''tha'', ''thi'', ''hoga'', ''hogaya'', ''kripya'', ''dhanyavad'']"

definition roman_ta :: "string list" where
  "roman_ta = [''irukku'', ''ethana'', ''evlo'', ''enna'', ''epdi'', ''ungal'', ''ungalukku'',
               ''nalla'', ''velai'', ''sapadu'']"

definition detect_language_code :: "string \<Rightarrow> string" where
  "detect_language_code s =
     (if s = [] then ''en''
      else
        let t = lower s;
            tokens = split (replace_char CHR ''.'' '' ''
                       (replace_char CHR ''!'' '' '' (replace_char CHR ''?'' '' '' t)))
        in if list_ex (\<lambda>w. w \<in> set roman_hi) tokens then ''hi''
           else if list_ex (\<lambda>w. w \<in> set roman_ta) tokens then ''ta''
           else ''en'')"

definition language_name :: "string \<Rightarrow> string" where
  "language_name code =
     (if code = ''hi'' then ''Hindi'' else if code = ''ta'' then ''Tamil'' else ''English'')"

section \<open>Document chat endpoint (\<open>api/endpoints/document_chat.py\<close>)\<close>

record query_request =
  rq_query :: string
  rq_lang :: "string option"
  rq_top_k :: "int option"
  rq_course_id :: "string option"

record citation =
  source_id :: string
  title :: string
  content :: string
  confidence :: real
  cit_page_number :: "int option"
  cit_course_id :: string

text \<open>
  The response. \<open>latency_ms\<close> and \<open>answer_id\<close> come from the clock and from \<open>uuid4\<close> and are
  left out.
\<close>

record query_response =
  answer :: string
  citations :: "citation list"
  usage :: "(string \<times> int) list"

text \<open>
  What the chat-completion endpoint returned: the string at
  \<open>['choices'][0]['message']['content']\<close> when there is one, and the \<open>usage\<close> dictionary
  (empty when absent).
\<close>

record completion =
  message_content :: "string option"
  completion_usage :: "(string \<times> int) list"

text \<open>One call of the generative model: the messages (role, content), \<open>max_tokens\<close>, \<open>temperature\<close>.\<close>

type_synonym llm_call = "(string \<times> string) list \<times> int \<times> real"

text \<open>
  What the endpoint depends on: the vector store and the database behind the document
  service, \<open>openrouter_service.chat_completion\<close>, the settings it reads, the formatting of a
  score with two decimals (\<open>{score:.2f}\<close>) and the two system prompts (fixed string literals
  of the source).
\<close>

record deps =
  vector_store_service :: "exn + vector_store"
  mongo :: "exn + database"
  chat_completion :: "(string \<times> string) list \<Rightarrow> int \<Rightarrow> real \<Rightarrow> exn + completion"
  RAG_MAX_CONTEXT_LENGTH :: int
  MAX_TOKENS :: int
  format_2f :: "real \<Rightarrow> string"
  system_prompt :: string
  course_system_prompt :: string

text \<open>Lines 23 to 40: normalisation and the rewriting of common question patterns.\<close>

definition preprocess_query :: "string \<Rightarrow> string" where
  "preprocess_query original_query =
     (let q = normalize_query (Some original_query);
          query_lower = lower q
      in if py_in ''what is the'' query_lower \<and> py_in ''score'' query_lower then
           (if py_in ''aws'' query_lower then ''AWS score''
            else if py_in ''cgpa'' query_lower then ''CGPA''
            else if py_in ''leetcode'' query_lower then ''Leetcode rating''
            else q)
         else if py_in ''what is'' query_lower \<and> py_in ''certificate'' query_lower then ''certificates''
         else if py_in ''what is'' query_lower \<and> py_in ''linkedin'' query_lower then ''LinkedIn''
         else if py_in ''what is'' query_lower \<and> py_in ''project'' query_lower then ''projects''
         else q)"

text \<open>\<open>request.top_k or 5\<close>\<close>

definition top_k_or_5 :: "int option \<Rightarrow> int" where
  "top_k_or_5 k = (case k of None \<Rightarrow> 5 | Some n \<Rightarrow> if n = 0 then 5 else n)"

text \<open>The slice \<open>xs[:k]\<close>; a negative \<open>k\<close> counts from the end.\<close>

definition py_take :: "int \<Rightarrow> 'a list \<Rightarrow> 'a list" where
  "py_take k xs = (if 0 \<le> k then take (nat k) xs else take (length xs - nat (- k)) xs)"

text \<open>The local function \<open>_bonus\<close>; \<open>ql\<close> is the lower-cased query.\<close>

definition chat_bonus :: "string \<Rightarrow> search_result \<Rightarrow> real" where
  "chat_bonus ql r =
     (let t = lower (r_text r);
          b0 = 0;
          b1 = (if py_in ''project'' ql
                then (let b = (if py_in ''project'' t then b0 + 2 / 10 else b0)
                      in if py_in ''internship'' t then b - 1 / 10 else b)
                else b0);
          b2 = (if py_in ''internship'' ql
                then (let b = (if py_in ''internship'' t then b1 + 2 / 10 else b1)
                      in if py_in ''project'' t then b - 1 / 10 else b)
                else b1)
      in b2)"

text \<open>Line 85: the re-sort of the relevant results.\<close>

definition rerank :: "string \<Rightarrow> search_result list \<Rightarrow> search_result list" where
  "rerank ql relevant_results =
     py_sorted_desc (\<lambda>r. r_score r + chat_bonus ql r) relevant_results"

definition general_knowledge_indicators :: "string list" where
  "general_knowledge_indicators =
     [''what is'', ''define'', ''explain'', ''how to cook'', ''capital of'',
      ''general knowledge'', ''common knowledge'', ''everyone knows'']"

definition is_general_knowledge_query :: "string \<Rightarrow> bool" where
  "is_general_knowledge_query q =
     list_ex (\<lambda>indicator. py_in indicator (lower q)) general_knowledge_indicators"

text \<open>Line 100: some word of the query occurs in the concatenated, lower-cased texts.\<close>

definition query_word_in_documents :: "string \<Rightarrow> search_result list \<Rightarrow> bool" where
  "query_word_in_documents q relevant_results =
     (let document_content = lower (join '' '' (map r_text relevant_results))
      in list_ex (\<lambda>w. py_in w document_content) (split (lower q)))"

definition no_context_answer :: "string \<Rightarrow> string" where
  "no_context_answer q =
     ''I couldn'' @ [CHR 0x27] @ ''t find any relevant information about '' @ [CHR 0x27] @ q
     @ [CHR 0x27] @ '' in the uploaded documents. Please try asking a different question or check if the relevant document has been uploaded correctly.''"

definition general_knowledge_answer :: "string \<Rightarrow> string" where
  "general_knowledge_answer q =
     ''I couldn'' @ [CHR 0x27] @ ''t find specific information about '' @ [CHR 0x27] @ q
     @ [CHR 0x27] @ '' in the uploaded documents. This appears to be a general knowledge question, but I can only answer based on the content in your uploaded documents.''"

text \<open>A dictionary value inside an f-string.\<close>

definition render_str :: "string field \<Rightarrow> string" where
  "render_str f = (case f of Val s \<Rightarrow> s | _ \<Rightarrow> ''None'')"

definition render_int :: "int field \<Rightarrow> string" where
  "render_int f = (case f of Val n \<Rightarrow> str_int n | _ \<Rightarrow> ''None'')"

text \<open>Line 122: the serialised source block of result number \<open>i\<close>.\<close>

definition source_text :: "(real \<Rightarrow> string) \<Rightarrow> nat \<Rightarrow> search_result \<Rightarrow> string" where
  "source_text fmt i r =
     ''Source '' @ str_nat i
     @ '' (from '' @ render_str (get_default (r_filename r) ''Unknown Document'')
     @ '', page '' @ (case r_page_number r of Missing \<Rightarrow> ''Unknown Page'' | f \<Rightarrow> render_int f)
     @ '', relevance: '' @ fmt (r_score r) @ ''):'' @ [CHR 0x0A] @ r_text r"

text \<open>
  Lines 113 to 130: the loop that collects \<open>context_parts\<close>; \<open>i\<close> is the number of the next
  source and \<open>total_length\<close> the length collected so far. The loop breaks at the first
  source that would exceed the limit.
\<close>

fun context_parts :: "int \<Rightarrow> (real \<Rightarrow> string) \<Rightarrow> nat \<Rightarrow> int \<Rightarrow> search_result list \<Rightarrow> string list" where
  "context_parts limit fmt i total_length [] = []"
| "context_parts limit fmt i total_length (r # rs) =
     (if total_length + int (length (source_text fmt i r)) > limit then []
      else source_text fmt i r
           # context_parts limit fmt (Suc i) (total_length + int (length (source_text fmt i r))) rs)"

definition build_context :: "int \<Rightarrow> (real \<Rightarrow> string) \<Rightarrow> search_result list \<Rightarrow> string" where
  "build_context limit fmt relevant_results =
     join [CHR 0x0A, CHR 0x0A] (context_parts limit fmt 1 0 relevant_results)"

definition indent16 :: string where
  "indent16 = replicate 16 CHR '' ''"

definition user_prompt :: "string \<Rightarrow> string \<Rightarrow> string" where
  "user_prompt q context =
     ''Question (answer in '' @ language_name (detect_language_code q) @ ''): '' @ q @ [CHR 0x0A]
     @ indent16 @ [CHR 0x0A]
     @ indent16 @ ''Answer this question using the information from the document content below. Look for specific numbers, scores, and values.'' @ [CHR 0x0A]
     @ indent16 @ [CHR 0x0A]
     @ indent16 @ ''Document Content:'' @ [CHR 0x0A]
     @ indent16 @ context"

text \<open>
  Lines 193 to 200: one citation. \<open>QueryResponse\<close> validates it: \<open>source_id\<close>, \<open>title\<close> and
  \<open>course_id\<close> must be strings, so a \<open>None\<close> there raises.
\<close>

definition make_citation :: "search_result \<Rightarrow> exn + citation" where
  "make_citation r =
     (case (get_default (r_document_id r) ''unknown'',
            get_default (r_filename r) ''Unknown Document'') of
        (Val sid, Val ttl) \<Rightarrow>
          Inr \<lparr>source_id = sid,
               title = ttl,
               content = (if length (r_text r) > 200 then take 200 (r_text r) @ ''...''
                          else r_text r),
               confidence = r_score r,
               cit_page_number = (case r_page_number r of Val n \<Rightarrow> Some n | _ \<Rightarrow> None),
               cit_course_id = sid\<rparr>
      | _ \<Rightarrow> Inl (Exception ''ValidationError''))"

fun make_citations :: "search_result list \<Rightarrow> exn + citation list" where
  "make_citations [] = Inr []"
| "make_citations (r # rs) =
     (case make_citation r of
        Inl e \<Rightarrow> Inl e
      | Inr c \<Rightarrow> (case make_citations rs of Inl e \<Rightarrow> Inl e | Inr cs \<Rightarrow> Inr (c # cs)))"

text \<open>
  Lines 156 to 185: the call of the generative model and its \<open>except\<close> clauses. The result
  is the answer and the response kept (\<open>None\<close> after a handled error), or the exception that
  is not handled here; the second component is the call made.
\<close>

definition call_llm ::
  "deps \<Rightarrow> string \<Rightarrow> string \<Rightarrow> (exn + string \<times> completion option) \<times> llm_call list" where
  "call_llm d q context =
     (let messages = [(''system'', system_prompt d), (''user'', user_prompt q context)];
          call = (messages, MAX_TOKENS d, 1 / 10)
      in (case chat_completion d messages (MAX_TOKENS d) (1 / 10) of
            Inr response \<Rightarrow>
              (case message_content response of
                 Some a \<Rightarrow> Inr (a, Some response)
               | None \<Rightarrow> Inl (Exception ''KeyError''))
          | Inl (RateLimitError m) \<Rightarrow>
              Inr (''I'' @ [CHR 0x27] @ ''m sorry, but I'' @ [CHR 0x27]
                   @ ''ve reached my daily limit for free AI responses. '' @ m
                   @ ''. Please try again tomorrow or consider upgrading your API plan.'', None)
          | Inl (AuthenticationError m) \<Rightarrow>
              Inr (''Authentication error: '' @ m @ ''. Please check the API configuration.'', None)
          | Inl (APIError m) \<Rightarrow>
              Inr (''I'' @ [CHR 0x27] @ ''m experiencing technical difficulties: '' @ m
                   @ ''. Please try again later.'', None)
          | Inl e \<Rightarrow> Inl e,
          [call]))"

definition exn_message :: "exn \<Rightarrow> string" where
  "exn_message e =
     (case e of
        ZeroDivisionError \<Rightarrow> ''float division by zero''
      | RateLimitError m \<Rightarrow> m
      | AuthenticationError m \<Rightarrow> m
      | APIError m \<Rightarrow> m
      | Exception m \<Rightarrow> m)"

text \<open>The outer \<open>except\<close> clause: the request fails with status 500.\<close>

datatype http_exception = HTTPException int string

definition error_500 :: "exn \<Rightarrow> http_exception" where
  "error_500 e = HTTPException 500 (''Error generating answer: '' @ exn_message e)"

text \<open>
  Lines 59 to 185: the answer and the kept response for the search results found, and the
  calls of the generative model made on the way. The variable \<open>response\<close> is \<open>None\<close> before
  the general-knowledge check and is set to \<open>None\<close> again in its branch; line 111 then tests
  \<open>response is None\<close>.
\<close>

definition answer_from_results ::
  "deps \<Rightarrow> string \<Rightarrow> int \<Rightarrow> search_result list \<Rightarrow>
   (exn + string \<times> completion option \<times> search_result list) \<times> llm_call list" where
  "answer_from_results d q k search_results =
     (if search_results = [] then (Inr (no_context_answer q, None, []), [])
      else
        let relevant_results = rerank (lower q) (py_take k search_results);
            (answer0, response0) =
              (if is_general_knowledge_query q
               then (if \<not> query_word_in_documents q relevant_results
                     then (general_knowledge_answer q, None :: completion option)
                     else ([], None))
               else ([], None))
        in if response0 = None then
             (case call_llm d q
                     (build_context (RAG_MAX_CONTEXT_LENGTH d) (format_2f d) relevant_results) of
                (Inl e, calls) \<Rightarrow> (Inl e, calls)
              | (Inr (a, response), calls) \<Rightarrow> (Inr (a, response, relevant_results), calls))
           else (Inr (answer0, response0, relevant_results), []))"

text \<open>
  \<open>document_chat_answer\<close>: the response or the HTTP error, and the list of calls of the
  generative model made while handling the request.
\<close>

definition document_chat_answer ::
  "deps \<Rightarrow> query_request \<Rightarrow> (http_exception + query_response) \<times> llm_call list" where
  "document_chat_answer d request =
     (let q = preprocess_query (rq_query request);
          k = top_k_or_5 (rq_top_k request)
      in case search_documents (vector_store_service d) (mongo d) q (rq_course_id request) k of
           Inl e \<Rightarrow> (Inl (error_500 e), [])
         | Inr search_results \<Rightarrow>
             (case answer_from_results d q k search_results of
                (Inl e, calls) \<Rightarrow> (Inl (error_500 e), calls)
              | (Inr (a, response, relevant_results), calls) \<Rightarrow>
                  (case make_citations
                          (if search_results \<noteq> []
                           then (if relevant_results \<noteq> [] then relevant_results else search_results)
                           else []) of
                     Inl e \<Rightarrow> (Inl (error_500 e), calls)
                   | Inr cs \<Rightarrow>
                       (Inr \<lparr>answer = a,
                             citations = cs,
                             usage = (case response of
                                        None \<Rightarrow> []
                                      | Some resp \<Rightarrow> completion_usage resp)\<rparr>,
                        calls))))"

section \<open>Course-content answer (\<open>services/vector_search.py\<close>)\<close>

record course_content =
  cc_id :: string
  cc_title :: string
  cc_content :: string
  cc_course_id :: string
  cc_page_number :: "int option"

record vector_search_result =
  vsr_content :: course_content
  vsr_score :: real
  vsr_distance :: real

definition no_results_answer :: string where
  "no_results_answer =
     ''I couldn'' @ [CHR 0x27] @ ''t find relevant information to answer your question. Please try rephrasing or check if the course content is available.''"

definition processing_error_answer :: string where
  "processing_error_answer =
     ''I encountered an error while processing your question. Please try again.''"

definition course_context :: "vector_search_result list \<Rightarrow> string" where
  "course_context search_results =
     join [CHR 0x0A, CHR 0x0A]
       (map (\<lambda>r. ''Title: '' @ cc_title (vsr_content r) @ [CHR 0x0A] @ ''Content: ''
                  @ cc_content (vsr_content r)) search_results)"

definition course_user_prompt :: "string \<Rightarrow> string \<Rightarrow> string" where
  "course_user_prompt q context =
     ''Based on the following course content, answer in ''
     @ language_name (detect_language_code q) @ ''. Question: '' @ q
     @ [CHR 0x0A, CHR 0x0A] @ ''Course Content:'' @ [CHR 0x0A] @ context"

text \<open>
  The \<open>usage\<close> dictionary of the answers that are given without a completed call of the
  model (lines 259 and 320).
\<close>

definition zero_usage :: "(string \<times> int) list" where
  "zero_usage = [(''prompt_tokens'', 0), (''completion_tokens'', 0), (''total_tokens'', 0)]"

text \<open>
  \<open>search_and_generate_answer\<close>, given what \<open>search_similar_content\<close> returned or raised.
  After the call of the model the code reads \<open>response.choices\<close>; the response is the
  parsed JSON (a dictionary), which has no such attribute, so this raises like a failed call
  and the \<open>except\<close> clause answers.
\<close>

definition search_and_generate_answer ::
  "deps \<Rightarrow> exn + vector_search_result list \<Rightarrow> string \<Rightarrow> query_response \<times> llm_call list" where
  "search_and_generate_answer d found q =
     (let failed = \<lparr>answer = processing_error_answer, citations = [], usage = zero_usage\<rparr>
      in case found of
           Inl e \<Rightarrow> (failed, [])
         | Inr search_results \<Rightarrow>
             if search_results = []
             then (\<lparr>answer = no_results_answer, citations = [], usage = zero_usage\<rparr>, [])
             else
               let messages = [(''system'', course_system_prompt d),
                               (''user'', course_user_prompt q (course_context search_results))]
               in (case chat_completion d messages (MAX_TOKENS d) (7 / 10) of
                     Inl e \<Rightarrow> failed
                   | Inr response \<Rightarrow> failed,
                   [(messages, MAX_TOKENS d, 7 / 10)]))"

text \<open>The six keyword queries the rewriting of lines 28 to 40 can produce.\<close>

definition rewritten_queries :: "string list" where
  "rewritten_queries =
     [''AWS score'', ''CGPA'', ''Leetcode rating'', ''certificates'', ''LinkedIn'', ''projects'']"

section \<open>Concrete collaborators for the example runs\<close>

text \<open>A stored passage of document \<open>doc1\<close> (file \<open>resume.pdf\<close>, page 1) with the given text.\<close>

definition example_doc :: "string \<Rightarrow> lc_document" where
  "example_doc t =
     \<lparr>page_content = t, md_document_id = Some ''doc1'', md_page_number = Some 1,
      md_filename = Some ''resume.pdf'', md_chunk_id = Some 0, md_section = None\<rparr>"

text \<open>A vector store that answers every scored search and every retriever call the same way.\<close>

definition fixed_store :: "(lc_document \<times> raw_score) list \<Rightarrow> lc_document list \<Rightarrow> vector_store" where
  "fixed_store scored docs =
     \<lparr>similarity_search_with_score = (\<lambda>q k f. Inr scored),
      retriever_invoke = (\<lambda>q k f. Inr docs)\<rparr>"

text \<open>A vector store whose calls always raise.\<close>

definition broken_store :: vector_store where
  "broken_store =
     \<lparr>similarity_search_with_score = (\<lambda>q k f. Inl (Exception ''index unavailable'')),
      retriever_invoke = (\<lambda>q k f. Inl (Exception ''index unavailable''))\<rparr>"

text \<open>
  A regular-expression engine for patterns that are alternatives of literal words: the text
  matches when it contains one of the alternatives, ignoring case.
\<close>

fun split_on :: "char \<Rightarrow> string \<Rightarrow> string \<Rightarrow> string list" where
  "split_on sep w [] = [w]"
| "split_on sep w (c # cs) = (if c = sep then w # split_on sep [] cs else split_on sep (w @ [c]) cs)"

definition literal_regex :: "string \<Rightarrow> exn + (string \<Rightarrow> bool)" where
  "literal_regex pat =
     Inr (\<lambda>t. list_ex (\<lambda>alt. py_in (lower alt) (lower t)) (split_on CHR ''|'' [] pat))"

definition example_chunk :: "int \<Rightarrow> string \<Rightarrow> mongo_chunk" where
  "example_chunk n t =
     \<lparr>c_oid = ''oid'' @ str_int n, c_document_id = ''doc1'', c_chunk_id = n, c_text = t,
      c_page_number = Some 1\<rparr>"

definition example_db :: "mongo_chunk list \<Rightarrow> database" where
  "example_db cs =
     \<lparr>chunks_collection = cs,
      documents_collection = [\<lparr>d_document_id = ''doc1'', d_filename = ''resume.pdf''\<rparr>],
      regex = literal_regex\<rparr>"

text \<open>A generative model that always answers with the given text.\<close>

definition fixed_llm :: "string \<Rightarrow> (string \<times> string) list \<Rightarrow> int \<Rightarrow> real \<Rightarrow> exn + completion" where
  "fixed_llm a messages max_tokens temperature =
     Inr \<lparr>message_content = Some a, completion_usage = [(''total_tokens'', 42)]\<rparr>"

definition example_deps ::
  "exn + vector_store \<Rightarrow> exn + database \<Rightarrow> string \<Rightarrow> deps" where
  "example_deps store db a =
     \<lparr>vector_store_service = store, mongo = db, chat_completion = fixed_llm a,
      RAG_MAX_CONTEXT_LENGTH = 4000, MAX_TOKENS = 500,
      format_2f = (\<lambda>x. ''0.00''), system_prompt = ''You are a helpful document assistant.'',
      course_system_prompt = ''You are a helpful course assistant.''\<rparr>"

section \<open>Proofs: the query normaliser\<close>


text \<open>
  The equations of \<open>map_words\<close> and \<open>str_nat\<close> rewrite a call to a term with another call, so
  they are not used as automatic simplification rules.
\<close>

declare map_words.simps [simp del]

declare str_nat.simps [simp del]

lemma map_words_Nil: "map_words f [] = []"
  by (simp add: map_words.simps)

lemma map_words_word:
  "is_word c \<Longrightarrow>
   map_words f (c # cs) = f (c # takeWhile is_word cs) @ map_words f (dropWhile is_word cs)"
  by (simp add: map_words.simps)

lemma map_words_sep: "\<not> is_word c \<Longrightarrow> map_words f (c # cs) = c # map_words f cs"
  by (simp add: map_words.simps)

lemma word_chars_not_space:
  "\<forall>c \<in> set (ascii_lower @ ascii_upper @ ''0123456789_''). \<not> is_space c"
  by (simp add: is_space_def ascii_lower_def ascii_upper_def)

lemma is_word_not_space: "is_word c \<Longrightarrow> \<not> is_space c"
  unfolding is_word_def using word_chars_not_space by blast

lemma word_run: "is_word c \<Longrightarrow> word (c # takeWhile is_word cs)"
  unfolding word_def using set_takeWhileD[of _ is_word cs] by auto

lemma word_fun_run: "word_fun f \<Longrightarrow> is_word c \<Longrightarrow> word (f (c # takeWhile is_word cs))"
  unfolding word_fun_def using word_run by blast

lemma sep_start_dropWhile: "dropWhile is_word s = [] \<or> \<not> is_word (hd (dropWhile is_word s))"
  using hd_dropWhile[of is_word s] by blast

lemma length_dropWhile_lt: "length (dropWhile P cs) < length (c # cs)"
  using length_dropWhile_le[of P cs] by simp

lemma map_words_block:
  assumes "word w" and "r = [] \<or> \<not> is_word (hd r)"
  shows "map_words f (w @ r) = f w @ map_words f r"
proof -
  from assms(1) obtain c cs where w: "w = c # cs" and c: "is_word c"
    and cs: "\<forall>x \<in> set cs. is_word x"
    unfolding word_def by (cases w) auto
  have tw: "takeWhile is_word (cs @ r) = cs"
    using cs assms(2) by (cases r) auto
  have dw: "dropWhile is_word (cs @ r) = r"
    using cs assms(2) by (cases r) auto
  have "map_words f (c # (cs @ r)) = f (c # cs) @ map_words f r"
    using map_words_word[OF c, of f "cs @ r"] by (simp only: tw dw)
  then show ?thesis by (simp add: w)
qed

lemma map_words_Nil_iff:
  assumes "word_fun f"
  shows "map_words f s = [] \<longleftrightarrow> s = []"
proof (cases s)
  case Nil
  then show ?thesis by (simp add: map_words_Nil)
next
  case (Cons c cs)
  show ?thesis
  proof (cases "is_word c")
    case True
    have "f (c # takeWhile is_word cs) \<noteq> []"
      using word_fun_run[OF assms True, of cs] by (simp add: word_def)
    then show ?thesis using Cons by (simp add: map_words_word[OF True])
  next
    case False
    then show ?thesis using Cons by (simp add: map_words_sep)
  qed
qed

lemma map_words_sep_start:
  assumes "r = [] \<or> \<not> is_word (hd r)"
  shows "map_words f r = [] \<or> \<not> is_word (hd (map_words f r))"
proof (cases r)
  case Nil
  then show ?thesis by (simp add: map_words_Nil)
next
  case (Cons c cs)
  with assms have "\<not> is_word c" by simp
  then show ?thesis using Cons by (simp add: map_words_sep)
qed

lemma map_words_comp:
  assumes wf: "word_fun f"
  shows "map_words g (map_words f s) = map_words (\<lambda>w. g (f w)) s"
proof (induction "length s" arbitrary: s rule: less_induct)
  case less
  show ?case
  proof (cases s)
    case Nil
    then show ?thesis by (simp add: map_words_Nil)
  next
    case (Cons c cs)
    show ?thesis
    proof (cases "is_word c")
      case True
      let ?w = "c # takeWhile is_word cs"
      let ?r = "dropWhile is_word cs"
      have len: "length ?r < length s"
        unfolding Cons by (rule length_dropWhile_lt)
      have fw: "word (f ?w)" by (rule word_fun_run[OF wf True])
      have "map_words g (map_words f s) = map_words g (f ?w @ map_words f ?r)"
        unfolding Cons by (simp only: map_words_word[OF True])
      also have "\<dots> = g (f ?w) @ map_words g (map_words f ?r)"
        by (rule map_words_block[OF fw map_words_sep_start[OF sep_start_dropWhile]])
      also have "\<dots> = g (f ?w) @ map_words (\<lambda>w. g (f w)) ?r"
        by (simp only: less[OF len])
      also have "\<dots> = map_words (\<lambda>w. g (f w)) s"
        unfolding Cons by (simp only: map_words_word[OF True])
      finally show ?thesis .
    next
      case False
      have "length cs < length s" using Cons by simp
      from less[OF this] show ?thesis
        unfolding Cons by (simp only: map_words_sep[OF False])
    qed
  qed
qed

lemma map_words_cong_word:
  assumes "\<And>w. word w \<Longrightarrow> f w = g w"
  shows "map_words f s = map_words g s"
proof (induction "length s" arbitrary: s rule: less_induct)
  case less
  show ?case
  proof (cases s)
    case Nil
    then show ?thesis by (simp add: map_words_Nil)
  next
    case (Cons c cs)
    show ?thesis
    proof (cases "is_word c")
      case True
      have len: "length (dropWhile is_word cs) < length s"
        unfolding Cons by (rule length_dropWhile_lt)
      show ?thesis
        unfolding Cons
        by (simp only: map_words_word[OF True] less[OF len] assms[OF word_run[OF True]])
    next
      case False
      have "length cs < length s" using Cons by simp
      from less[OF this] show ?thesis
        unfolding Cons by (simp only: map_words_sep[OF False])
    qed
  qed
qed

lemma dropWhile_id: "xs = [] \<or> \<not> P (hd xs) \<Longrightarrow> dropWhile P xs = xs"
  by (cases xs) auto

lemma last_dropWhile: "dropWhile P xs \<noteq> [] \<Longrightarrow> last (dropWhile P xs) = last xs"
  by (induction xs) (auto split: if_splits)

lemma strip_stripped: "stripped (strip s)"
proof -
  let ?a = "dropWhile is_space s"
  let ?b = "dropWhile is_space (rev ?a)"
  show ?thesis
  proof (cases "?b = []")
    case True
    then show ?thesis by (simp add: stripped_def strip_def)
  next
    case False
    have hb: "\<not> is_space (hd ?b)" using hd_dropWhile[OF False] .
    have an: "?a \<noteq> []"
    proof
      assume e: "?a = []"
      have "?b = []" by (simp only: e rev.simps dropWhile.simps)
      with False show False by contradiction
    qed
    have ha: "\<not> is_space (hd ?a)" using hd_dropWhile[OF an] .
    have "last ?b = last (rev ?a)" using last_dropWhile[OF False] .
    also have "\<dots> = hd ?a" using an by (simp only: last_rev)
    finally have lb: "\<not> is_space (last ?b)" using ha by simp
    have rb: "rev ?b \<noteq> []" using False by simp
    have "hd (rev ?b) = last ?b" "last (rev ?b) = hd ?b"
      using False by (simp_all only: hd_rev last_rev)
    then have "\<not> is_space (hd (rev ?b))" "\<not> is_space (last (rev ?b))"
      using hb lb by simp_all
    then show ?thesis unfolding stripped_def strip_def by blast
  qed
qed

lemma stripped_strip_id:
  assumes "stripped s"
  shows "strip s = s"
proof (cases "s = []")
  case True
  then show ?thesis by (simp add: strip_def)
next
  case False
  with assms have h: "\<not> is_space (hd s)" and l: "\<not> is_space (last s)"
    by (simp_all add: stripped_def)
  have a: "dropWhile is_space s = s" by (rule dropWhile_id) (simp add: h)
  have "\<not> is_space (hd (rev s))" using l False by (simp add: hd_rev)
  then have b: "dropWhile is_space (rev s) = rev s" by (intro dropWhile_id) simp
  show ?thesis by (simp add: strip_def a b)
qed

lemma map_words_last:
  assumes wf: "word_fun f"
  shows "s \<noteq> [] \<Longrightarrow> is_word (last (map_words f s)) \<or> last (map_words f s) = last s"
proof (induction "length s" arbitrary: s rule: less_induct)
  case less
  from less.prems obtain c cs where Cons: "s = c # cs" by (cases s) auto
  show ?case
  proof (cases "is_word c")
    case True
    let ?w = "c # takeWhile is_word cs"
    let ?r = "dropWhile is_word cs"
    have len: "length ?r < length s"
      unfolding Cons by (rule length_dropWhile_lt)
    have fw: "word (f ?w)" by (rule word_fun_run[OF wf True])
    have eq: "map_words f s = f ?w @ map_words f ?r"
      unfolding Cons by (rule map_words_word[OF True])
    show ?thesis
    proof (cases "?r = []")
      case True
      have "map_words f s = f ?w"
        unfolding eq by (simp only: True map_words_Nil append_Nil2)
      moreover have "is_word (last (f ?w))" using fw unfolding word_def by simp
      ultimately show ?thesis by simp
    next
      case False
      then have ne: "map_words f ?r \<noteq> []" using map_words_Nil_iff[OF wf] by blast
      have csne: "cs \<noteq> []"
      proof
        assume "cs = []"
        then have "?r = []" by (simp only: dropWhile.simps)
        with False show False by contradiction
      qed
      have ls: "last s = last ?r"
        unfolding Cons using last_dropWhile[OF False] csne by simp
      have "last (map_words f s) = last (map_words f ?r)"
        using ne by (simp add: eq)
      then show ?thesis using less.hyps[OF len False] ls by simp
    qed
  next
    case False
    have eq: "map_words f s = c # map_words f cs"
      unfolding Cons by (rule map_words_sep[OF False])
    show ?thesis
    proof (cases "cs = []")
      case True
      then show ?thesis using eq Cons by (simp add: map_words_Nil)
    next
      case ne: False
      have "length cs < length s" using Cons by simp
      from less.hyps[OF this ne] show ?thesis
        using Cons ne map_words_Nil_iff[OF wf, of cs] by (simp add: map_words_sep[OF False])
    qed
  qed
qed

lemma map_words_stripped:
  assumes wf: "word_fun f" and st: "stripped s"
  shows "stripped (map_words f s)"
proof (cases "s = []")
  case True
  then show ?thesis by (simp add: stripped_def map_words_Nil)
next
  case False
  then obtain c cs where Cons: "s = c # cs" by (cases s) auto
  have h: "\<not> is_space (hd s)" and l: "\<not> is_space (last s)"
    using st False by (simp_all add: stripped_def)
  have hd': "\<not> is_space (hd (map_words f s))"
  proof (cases "is_word c")
    case True
    have fw: "word (f (c # takeWhile is_word cs))" by (rule word_fun_run[OF wf True])
    then have ne': "f (c # takeWhile is_word cs) \<noteq> []"
      and "is_word (hd (f (c # takeWhile is_word cs)))"
      unfolding word_def using hd_in_set by blast+
    then have "\<not> is_space (hd (f (c # takeWhile is_word cs)))"
      using is_word_not_space by blast
    then show ?thesis
      unfolding Cons using ne' by (simp add: map_words_word[OF True])
  next
    case False
    then show ?thesis using h unfolding Cons by (simp add: map_words_sep)
  qed
  have "\<not> is_space (last (map_words f s))"
    using map_words_last[OF wf False] l is_word_not_space by metis
  then show ?thesis using hd' by (simp add: stripped_def)
qed


lemma lower_internship: "lower ''internship'' = ''internship''"
  by (simp add: lower_def lower_char_def ascii_upper_def ascii_lower_def)

lemma lower_project: "lower ''project'' = ''project''"
  by (simp add: lower_def lower_char_def ascii_upper_def ascii_lower_def)

lemma word_internship: "word ''internship''"
  by (simp add: word_def is_word_def ascii_upper_def ascii_lower_def)

lemma word_project: "word ''project''"
  by (simp add: word_def is_word_def ascii_upper_def ascii_lower_def)

lemma word_fun_sub_tok: "word repl \<Longrightarrow> word_fun (sub_tok pat repl)"
  by (simp add: word_fun_def sub_tok_def)

lemma fix_word_idem: "fix_word (fix_word w) = fix_word w"
  by (simp add: fix_word_def sub_tok_def lower_internship lower_project)

lemma word_fun_fix_word: "word_fun fix_word"
  unfolding word_fun_def fix_word_def
  using word_fun_sub_tok[OF word_internship] word_fun_sub_tok[OF word_project]
  unfolding word_fun_def by blast

lemma normalize_query_eq:
  "normalize_query q = map_words fix_word (strip (case q of None \<Rightarrow> [] | Some s \<Rightarrow> s))"
proof -
  let ?y = "strip (case q of None \<Rightarrow> [] | Some s \<Rightarrow> s)"
  let ?f1 = "sub_tok [''intenship''] ''internship''"
  let ?f2 = "sub_tok [''intership''] ''internship''"
  let ?f3 = "sub_tok [''proj'', ''projs'', ''project'', ''projects''] ''project''"
  have "normalize_query q = map_words ?f3 (map_words ?f2 (map_words ?f1 ?y))"
    by (simp add: normalize_query_def COMMON_FIXES_def re_sub_def)
  also have "\<dots> = map_words ?f3 (map_words (\<lambda>w. ?f2 (?f1 w)) ?y)"
    by (simp only: map_words_comp[OF word_fun_sub_tok[OF word_internship]])
  also have "\<dots> = map_words (\<lambda>w. ?f3 (?f2 (?f1 w))) ?y"
  proof (rule map_words_comp)
    show "word_fun (\<lambda>w. ?f2 (?f1 w))"
      using word_fun_sub_tok[OF word_internship] unfolding word_fun_def by blast
  qed
  also have "\<dots> = map_words fix_word ?y"
    by (rule map_words_cong_word) (simp add: fix_word_def)
  finally show ?thesis .
qed

text \<open>
  Claim C8. The query normaliser is idempotent: normalising an already normalised query
  changes nothing. It is a total function to strings, and the empty string (like Python's
  \<open>None\<close>) is normalised to the empty string.
\<close>

theorem normalize_query_idempotent:
  "normalize_query (Some (normalize_query q)) = normalize_query q
   \<and> normalize_query (Some []) = [] \<and> normalize_query None = []"
proof -
  let ?y = "strip (case q of None \<Rightarrow> [] | Some s \<Rightarrow> s)"
  have st: "stripped (map_words fix_word ?y)"
    by (rule map_words_stripped[OF word_fun_fix_word strip_stripped])
  have "normalize_query (Some (normalize_query q))
        = map_words fix_word (strip (map_words fix_word ?y))"
    by (simp add: normalize_query_eq)
  also have "\<dots> = map_words fix_word (map_words fix_word ?y)"
    by (simp only: stripped_strip_id[OF st])
  also have "\<dots> = map_words (\<lambda>w. fix_word (fix_word w)) ?y"
    by (rule map_words_comp[OF word_fun_fix_word])
  also have "\<dots> = map_words fix_word ?y"
    by (simp only: fix_word_idem)
  finally have idem: "normalize_query (Some (normalize_query q)) = normalize_query q"
    by (simp only: normalize_query_eq)
  have e: "strip [] = []" by (simp add: strip_def)
  show ?thesis using idem by (simp add: normalize_query_eq e map_words_Nil)
qed

section \<open>Proofs: the cache service\<close>

lemma get_after_set_search:
  assumes "enabled svc" and "t2 - t1 \<le> cache_ttl svc"
  shows "get_search_results digest (set_search_results digest svc t1 q d k p) t2 q d k
         = (Some p, set_search_results digest svc t1 q d k p)"
  using assms
  by (simp add: get_search_results_def set_search_results_def is_expired_def Let_def)

lemma get_expired_search:
  assumes "enabled svc"
    and "cache svc (generate_cache_key digest q d k) = Some e"
    and "t - timestamp e > cache_ttl svc"
  shows "fst (get_search_results digest svc t q d k) = None"
    and "cache (snd (get_search_results digest svc t q d k)) (generate_cache_key digest q d k)
         = None"
  using assms
  by (simp_all add: get_search_results_def is_expired_def Let_def)

text \<open>
  Claim C9. With caching enabled, storing a payload and reading it back under the same
  (query, document id, result count) before the TTL has elapsed returns that payload and
  leaves the store as the put left it; and when the time elapsed since an entry's timestamp
  exceeds the TTL, the read returns nothing and the entry is no longer in the store.
\<close>

theorem cache_put_get_and_expiry:
  "(enabled svc \<and> t2 - t1 \<le> cache_ttl svc \<longrightarrow>
      get_search_results digest (set_search_results digest svc t1 q d k p) t2 q d k
        = (Some p, set_search_results digest svc t1 q d k p))
   \<and> (enabled svc \<and> cache svc (generate_cache_key digest q d k) = Some e
        \<and> t - timestamp e > cache_ttl svc \<longrightarrow>
      fst (get_search_results digest svc t q d k) = None
      \<and> cache (snd (get_search_results digest svc t q d k)) (generate_cache_key digest q d k)
          = None)"
proof (intro conjI impI)
  assume "enabled svc \<and> t2 - t1 \<le> cache_ttl svc"
  then show "get_search_results digest (set_search_results digest svc t1 q d k p) t2 q d k
        = (Some p, set_search_results digest svc t1 q d k p)"
    by (simp add: get_after_set_search)
next
  assume a: "enabled svc \<and> cache svc (generate_cache_key digest q d k) = Some e
        \<and> t - timestamp e > cache_ttl svc"
  then show "fst (get_search_results digest svc t q d k) = None"
    by (simp add: get_expired_search(1))
  from a show "cache (snd (get_search_results digest svc t q d k))
      (generate_cache_key digest q d k) = None"
    by (simp add: get_expired_search(2))
qed

text \<open>
  The claim at a concrete run: TTL 300 s, a put at time 1000, a read at the same instant
  (hit), and a read of that entry at time 1301 (absent, evicted).
\<close>

theorem cache_put_get_and_expiry_witness:
  "enabled (\<lparr>cache = Map.empty, cache_ttl = 300, enabled = True\<rparr>
              :: (string list, string) cache_service)
   \<and> (1000::real) - 1000 \<le> 300
   \<and> fst (get_search_results (\<lambda>(q, d, k). q @ ''|'' @ d @ ''|'' @ str_int k)
        (set_search_results (\<lambda>(q, d, k). q @ ''|'' @ d @ ''|'' @ str_int k)
           (\<lparr>cache = Map.empty, cache_ttl = 300, enabled = True\<rparr>
              :: (string list, string) cache_service) 1000 ''CGPA'' ''doc1'' 5 [''p1''])
        1000 ''CGPA'' ''doc1'' 5) = Some [''p1'']
   \<and> (1301::real) - 1000 > 300
   \<and> fst (get_search_results (\<lambda>(q, d, k). q @ ''|'' @ d @ ''|'' @ str_int k)
        (set_search_results (\<lambda>(q, d, k). q @ ''|'' @ d @ ''|'' @ str_int k)
           (\<lparr>cache = Map.empty, cache_ttl = 300, enabled = True\<rparr>
              :: (string list, string) cache_service) 1000 ''CGPA'' ''doc1'' 5 [''p1''])
        1301 ''CGPA'' ''doc1'' 5) = None
   \<and> cache (snd (get_search_results (\<lambda>(q, d, k). q @ ''|'' @ d @ ''|'' @ str_int k)
        (set_search_results (\<lambda>(q, d, k). q @ ''|'' @ d @ ''|'' @ str_int k)
           (\<lparr>cache = Map.empty, cache_ttl = 300, enabled = True\<rparr>
              :: (string list, string) cache_service) 1000 ''CGPA'' ''doc1'' 5 [''p1''])
        1301 ''CGPA'' ''doc1'' 5))
       (generate_cache_key (\<lambda>(q, d, k). q @ ''|'' @ d @ ''|'' @ str_int k) ''CGPA'' ''doc1'' 5)
      = None"
proof -
  let ?dg = "\<lambda>(q, d, k). q @ ''|'' @ d @ ''|'' @ str_int k"
  let ?s0 = "\<lparr>cache = Map.empty, cache_ttl = 300, enabled = True\<rparr>
               :: (string list, string) cache_service"
  let ?s1 = "set_search_results ?dg ?s0 1000 ''CGPA'' ''doc1'' 5 [''p1'']"
  let ?e = "\<lparr>results = Some [''p1''], chat_response = None :: string option, timestamp = 1000,
             entry_query = ''CGPA'', entry_document_id = ''doc1'', entry_top_k = 5\<rparr>"
  have en: "enabled ?s0" by simp
  have en1: "enabled ?s1" by (simp add: set_search_results_def Let_def)
  have ttl1: "cache_ttl ?s1 = 300" by (simp add: set_search_results_def Let_def)
  have entry: "cache ?s1 (generate_cache_key ?dg ''CGPA'' ''doc1'' 5) = Some ?e"
    by (simp add: set_search_results_def Let_def)
  have hit: "get_search_results ?dg ?s1 1000 ''CGPA'' ''doc1'' 5 = (Some [''p1''], ?s1)"
    using cache_put_get_and_expiry[of ?s0 1000 1000 ?dg "''CGPA''" "''doc1''" 5 "[''p1'']"] en
    by simp
  have late: "(1301::real) - timestamp ?e > cache_ttl ?s1" using ttl1 by simp
  have miss: "fst (get_search_results ?dg ?s1 1301 ''CGPA'' ''doc1'' 5) = None
      \<and> cache (snd (get_search_results ?dg ?s1 1301 ''CGPA'' ''doc1'' 5))
           (generate_cache_key ?dg ''CGPA'' ''doc1'' 5) = None"
    using cache_put_get_and_expiry[of ?s1 _ _ ?dg "''CGPA''" "''doc1''" 5 _ ?e 1301] en1 entry late
    by blast
  show ?thesis using en hit miss by simp
qed

section \<open>Proofs: score normalisation\<close>




















section \<open>Proofs: ranking\<close>

lemma py_sorted_desc_adjacent:
  assumes "Suc i < length (py_sorted_desc key xs)"
  shows "key (py_sorted_desc key xs ! i) \<ge> key (py_sorted_desc key xs ! Suc i)"
proof -
  let ?ys = "py_sorted_desc key xs"
  have "sorted (map (\<lambda>x. - key x) ?ys)"
    unfolding py_sorted_desc_def by (rule sorted_sort_key)
  then have "map (\<lambda>x. - key x) ?ys ! i \<le> map (\<lambda>x. - key x) ?ys ! Suc i"
    using assms by (simp add: sorted_iff_nth_Suc del: nth_map)
  then show ?thesis using assms by simp
qed

lemma py_sorted_desc_stable:
  "filter (\<lambda>x. key x = v) (py_sorted_desc key xs) = filter (\<lambda>x. key x = v) xs"
proof -
  have "filter (\<lambda>x. - key x = - v) (sort_key (\<lambda>x. - key x) xs)
        = filter (\<lambda>x. - key x = - v) xs"
    by (rule sort_key_stable)
  then show ?thesis by (simp add: py_sorted_desc_def)
qed

lemma py_sorted_desc_length: "length (py_sorted_desc key xs) = length xs"
  by (simp add: py_sorted_desc_def)

lemma py_sorted_desc_set: "set (py_sorted_desc key xs) = set xs"
  by (simp add: py_sorted_desc_def)

lemma py_sorted_desc_Nil_iff: "py_sorted_desc key xs = [] \<longleftrightarrow> xs = []"
  using py_sorted_desc_length[of key xs] by auto

lemma vector_attempt_Some:
  assumes "vector_attempt store q d k = Inr (Some vs)"
  shows "\<exists>res. similarity_search_with_similarity store q k (filter_query d) = Inr res
           \<and> res \<noteq> []
           \<and> vs = py_sorted_desc (\<lambda>r. r_score r + bonus (lower q) r) (map vector_result res)"
  using assms
  by (auto simp: vector_attempt_def Let_def split: sum.splits if_splits)

text \<open>
  Claim C6. After the intent-based adjustment and re-sort, adjacent elements are in
  non-increasing order of score plus adjustment, and the elements with one adjusted score
  are in the order they had before the sort; the sort keeps every element. This holds for
  the re-sort of the endpoint (\<open>rerank\<close>) and for the one of \<open>search_documents\<close>.
\<close>

theorem rerank_sorted_stable:
  "(\<forall>i. Suc i < length (rerank ql rs) \<longrightarrow>
        r_score (rerank ql rs ! i) + chat_bonus ql (rerank ql rs ! i)
          \<ge> r_score (rerank ql rs ! Suc i) + chat_bonus ql (rerank ql rs ! Suc i))
   \<and> (\<forall>v. filter (\<lambda>r. r_score r + chat_bonus ql r = v) (rerank ql rs)
            = filter (\<lambda>r. r_score r + chat_bonus ql r = v) rs)
   \<and> length (rerank ql rs) = length rs \<and> set (rerank ql rs) = set rs
   \<and> (vector_attempt store q d k = Inr (Some vs) \<longrightarrow>
        (\<forall>i. Suc i < length vs \<longrightarrow>
            r_score (vs ! i) + bonus (lower q) (vs ! i)
              \<ge> r_score (vs ! Suc i) + bonus (lower q) (vs ! Suc i))
        \<and> (\<exists>res. similarity_search_with_similarity store q k (filter_query d) = Inr res
              \<and> (\<forall>v. filter (\<lambda>r. r_score r + bonus (lower q) r = v) vs
                     = filter (\<lambda>r. r_score r + bonus (lower q) r = v) (map vector_result res))))"
proof -
  let ?ck = "\<lambda>r. r_score r + chat_bonus ql r"
  let ?bk = "\<lambda>r. r_score r + bonus (lower q) r"
  have a: "\<forall>i. Suc i < length (rerank ql rs) \<longrightarrow>
        ?ck (rerank ql rs ! i) \<ge> ?ck (rerank ql rs ! Suc i)"
    unfolding rerank_def using py_sorted_desc_adjacent[of _ ?ck rs] by blast
  have b: "\<forall>v. filter (\<lambda>r. ?ck r = v) (rerank ql rs) = filter (\<lambda>r. ?ck r = v) rs"
    unfolding rerank_def using py_sorted_desc_stable[of ?ck _ rs] by blast
  have c: "length (rerank ql rs) = length rs \<and> set (rerank ql rs) = set rs"
    by (simp add: rerank_def py_sorted_desc_length py_sorted_desc_set)
  have d: "vector_attempt store q d k = Inr (Some vs) \<longrightarrow>
        (\<forall>i. Suc i < length vs \<longrightarrow> ?bk (vs ! i) \<ge> ?bk (vs ! Suc i))
        \<and> (\<exists>res. similarity_search_with_similarity store q k (filter_query d) = Inr res
              \<and> (\<forall>v. filter (\<lambda>r. ?bk r = v) vs
                     = filter (\<lambda>r. ?bk r = v) (map vector_result res)))"
  proof
    assume "vector_attempt store q d k = Inr (Some vs)"
    from vector_attempt_Some[OF this] obtain res where
      res: "similarity_search_with_similarity store q k (filter_query d) = Inr res"
      and vs: "vs = py_sorted_desc ?bk (map vector_result res)" by blast
    have "\<forall>i. Suc i < length vs \<longrightarrow> ?bk (vs ! i) \<ge> ?bk (vs ! Suc i)"
      unfolding vs using py_sorted_desc_adjacent[of _ ?bk "map vector_result res"] by blast
    moreover have "\<forall>v. filter (\<lambda>r. ?bk r = v) vs
                     = filter (\<lambda>r. ?bk r = v) (map vector_result res)"
      unfolding vs using py_sorted_desc_stable[of ?bk _ "map vector_result res"] by blast
    ultimately show "(\<forall>i. Suc i < length vs \<longrightarrow> ?bk (vs ! i) \<ge> ?bk (vs ! Suc i))
        \<and> (\<exists>res. similarity_search_with_similarity store q k (filter_query d) = Inr res
              \<and> (\<forall>v. filter (\<lambda>r. ?bk r = v) vs
                     = filter (\<lambda>r. ?bk r = v) (map vector_result res)))"
      using res by blast
  qed
  show ?thesis using a b c d by blast
qed

lemmas ranking_eval = rerank_def py_sorted_desc_def chat_bonus_def bonus_def lower_def
  lower_char_def ascii_upper_def ascii_lower_def vector_result_def example_doc_def
  of_option_def or_empty_def Let_def

text \<open>
  The claim at the query \<open>projects\<close>: the adjusted scores are 0.8 (an internship passage
  with score 0.9), 0.8 (a project passage with score 0.6) and 0.9 (a project passage with
  score 0.7); the two passages that tie at 0.8 keep their order.
\<close>

theorem rerank_sorted_stable_witness:
  "rerank ''projects''
     [vector_result (example_doc ''internship at acme'', 9 / 10),
      vector_result (example_doc ''project alpha'', 6 / 10),
      vector_result (example_doc ''project beta'', 7 / 10)]
   = [vector_result (example_doc ''project beta'', 7 / 10),
      vector_result (example_doc ''internship at acme'', 9 / 10),
      vector_result (example_doc ''project alpha'', 6 / 10)]
   \<and> Suc 1 < length (rerank ''projects''
     [vector_result (example_doc ''internship at acme'', 9 / 10),
      vector_result (example_doc ''project alpha'', 6 / 10),
      vector_result (example_doc ''project beta'', 7 / 10)])
   \<and> r_score (rerank ''projects''
     [vector_result (example_doc ''internship at acme'', 9 / 10),
      vector_result (example_doc ''project alpha'', 6 / 10),
      vector_result (example_doc ''project beta'', 7 / 10)] ! 1)
      + chat_bonus ''projects'' (rerank ''projects''
     [vector_result (example_doc ''internship at acme'', 9 / 10),
      vector_result (example_doc ''project alpha'', 6 / 10),
      vector_result (example_doc ''project beta'', 7 / 10)] ! 1)
     \<ge> r_score (rerank ''projects''
     [vector_result (example_doc ''internship at acme'', 9 / 10),
      vector_result (example_doc ''project alpha'', 6 / 10),
      vector_result (example_doc ''project beta'', 7 / 10)] ! Suc 1)
      + chat_bonus ''projects'' (rerank ''projects''
     [vector_result (example_doc ''internship at acme'', 9 / 10),
      vector_result (example_doc ''project alpha'', 6 / 10),
      vector_result (example_doc ''project beta'', 7 / 10)] ! Suc 1)
   \<and> vector_attempt
       (Inr (fixed_store [(example_doc ''internship at acme'', Num (9 / 10)),
                          (example_doc ''project alpha'', Num (6 / 10)),
                          (example_doc ''project beta'', Num (7 / 10))] []))
       ''my projects'' None 5
     = Inr (Some [vector_result (example_doc ''project beta'', 7 / 10),
                  vector_result (example_doc ''internship at acme'', 9 / 10),
                  vector_result (example_doc ''project alpha'', 6 / 10)])
   \<and> r_score (vector_result (example_doc ''project beta'', 7 / 10))
      + bonus (lower ''my projects'') (vector_result (example_doc ''project beta'', 7 / 10))
     \<ge> r_score (vector_result (example_doc ''internship at acme'', 9 / 10))
      + bonus (lower ''my projects'') (vector_result (example_doc ''internship at acme'', 9 / 10))"
proof -
  let ?L = "[vector_result (example_doc ''internship at acme'', 9 / 10),
      vector_result (example_doc ''project alpha'', 6 / 10),
      vector_result (example_doc ''project beta'', 7 / 10)]"
  let ?V = "[vector_result (example_doc ''project beta'', 7 / 10),
      vector_result (example_doc ''internship at acme'', 9 / 10),
      vector_result (example_doc ''project alpha'', 6 / 10)]"
  let ?S = "Inr (fixed_store [(example_doc ''internship at acme'', Num (9 / 10)),
                          (example_doc ''project alpha'', Num (6 / 10)),
                          (example_doc ''project beta'', Num (7 / 10))] [])"
  have e1: "rerank ''projects'' ?L = ?V"
    by (simp add: ranking_eval)
  have e2: "vector_attempt ?S ''my projects'' None 5 = Inr (Some ?V)"
    by (simp add: vector_attempt_def similarity_search_with_similarity_def fixed_store_def
        raw_similarity_def clamp01_def filter_query_def ranking_eval)
  have len1: "Suc 1 < length (rerank ''projects'' ?L)"
    unfolding e1 by simp
  have len2: "Suc 0 < length ?V" by simp
  note t = rerank_sorted_stable[of "''projects''" ?L ?S "''my projects''" None 5 ?V]
  from t len1 have a1:
    "r_score (rerank ''projects'' ?L ! 1) + chat_bonus ''projects'' (rerank ''projects'' ?L ! 1)
     \<ge> r_score (rerank ''projects'' ?L ! Suc 1)
        + chat_bonus ''projects'' (rerank ''projects'' ?L ! Suc 1)"
    by blast
  from t e2 len2 have
    "r_score (?V ! 0) + bonus (lower ''my projects'') (?V ! 0)
     \<ge> r_score (?V ! Suc 0) + bonus (lower ''my projects'') (?V ! Suc 0)"
    by blast
  then have a2: "r_score (vector_result (example_doc ''project beta'', 7 / 10))
      + bonus (lower ''my projects'') (vector_result (example_doc ''project beta'', 7 / 10))
     \<ge> r_score (vector_result (example_doc ''internship at acme'', 9 / 10))
      + bonus (lower ''my projects'') (vector_result (example_doc ''internship at acme'', 9 / 10))"
    by (simp only: nth_Cons_0 nth_Cons_Suc)
  show ?thesis using e1 e2 len1 a1 a2 by (intro conjI)
qed

section \<open>Proofs: retrieval never raises\<close>

lemma document_fallback_never_raises:
  "\<exists>res. document_fallback_text_search db q d k = Inr res"
  by (simp add: document_fallback_text_search_def split: sum.splits)

lemma search_documents_never_raises:
  "\<exists>res. search_documents store db q d k = Inr res"
  by (simp add: search_documents_def Let_def split: sum.splits)

lemma vector_attempt_raises:
  "similarity_search_with_similarity store q k (filter_query d) = Inl e \<Longrightarrow>
   vector_attempt store q d k = Inl e"
  by (simp add: vector_attempt_def)

lemma search_documents_fallback:
  assumes "vector_attempt store q d k = Inl e"
  shows "search_documents store db q d k = document_fallback_text_search db q d k"
  using assms document_fallback_never_raises[of db q d k]
  by (auto simp: search_documents_def Let_def)

text \<open>
  Claim C3. \<open>search_documents\<close> never raises: it always returns a list. When the vector
  path raises, it returns what the keyword fallback returns: the matches of the fallback
  when its body succeeds, and the empty list when the fallback fails as well.
\<close>

theorem search_documents_error_handling:
  "(\<exists>res. search_documents store db q d k = Inr res)
   \<and> (similarity_search_with_similarity store q k (filter_query d) = Inl e \<longrightarrow>
        search_documents store db q d k = document_fallback_text_search db q d k)
   \<and> (similarity_search_with_similarity store q k (filter_query d) = Inl e
        \<and> fallback_body db q d k = Inr found \<longrightarrow>
        search_documents store db q d k = Inr found)
   \<and> (similarity_search_with_similarity store q k (filter_query d) = Inl e
        \<and> fallback_body db q d k = Inl e' \<longrightarrow>
        search_documents store db q d k = Inr [])"
proof -
  have a: "\<exists>res. search_documents store db q d k = Inr res"
    by (rule search_documents_never_raises)
  have b: "similarity_search_with_similarity store q k (filter_query d) = Inl e \<longrightarrow>
        search_documents store db q d k = document_fallback_text_search db q d k"
    using vector_attempt_raises search_documents_fallback by blast
  have c: "fallback_body db q d k = Inr found \<longrightarrow>
        document_fallback_text_search db q d k = Inr found"
    by (simp add: document_fallback_text_search_def)
  have d: "fallback_body db q d k = Inl e' \<longrightarrow>
        document_fallback_text_search db q d k = Inr []"
    by (simp add: document_fallback_text_search_def)
  show ?thesis using a b c d by auto
qed

lemmas fallback_eval = fallback_body_def search_filters_def search_pattern_def
  search_patterns_def split_def replace_char_def lower_def lower_char_def ascii_upper_def
  ascii_lower_def is_space_def example_db_def example_chunk_def literal_regex_def
  project_chunk_def of_option_def Let_def

lemma broken_store_raises:
  "similarity_search_with_similarity (Inr broken_store) q k f = Inl (Exception ''index unavailable'')"
  by (simp add: similarity_search_with_similarity_def similarity_search_def broken_store_def)

lemma example_fallback_body:
  "fallback_body (Inr (example_db [example_chunk 0 ''AWS score: 87/100'', example_chunk 1 ''CGPA: 9.1'']))
     ''aws'' None 5
   = Inr [project_chunk [\<lparr>d_document_id = ''doc1'', d_filename = ''resume.pdf''\<rparr>]
            (example_chunk 0 ''AWS score: 87/100'')]"
  by (simp add: fallback_eval)

text \<open>
  The claim at a vector store that always raises: with a reachable database the query
  \<open>aws\<close> gets the one matching passage from the fallback, and with a database that raises
  too it gets the empty list.
\<close>

theorem search_documents_error_handling_witness:
  "similarity_search_with_similarity (Inr broken_store) ''aws'' 5 (filter_query None)
     = Inl (Exception ''index unavailable'')
   \<and> search_documents (Inr broken_store)
        (Inr (example_db [example_chunk 0 ''AWS score: 87/100'', example_chunk 1 ''CGPA: 9.1'']))
        ''aws'' None 5
     = Inr [project_chunk [\<lparr>d_document_id = ''doc1'', d_filename = ''resume.pdf''\<rparr>]
              (example_chunk 0 ''AWS score: 87/100'')]
   \<and> fallback_body (Inl (Exception ''database unavailable'')) ''aws'' None 5
     = Inl (Exception ''database unavailable'')
   \<and> search_documents (Inr broken_store) (Inl (Exception ''database unavailable'')) ''aws'' None 5
     = Inr []"
proof -
  let ?db = "Inr (example_db [example_chunk 0 ''AWS score: 87/100'', example_chunk 1 ''CGPA: 9.1''])"
  let ?down = "Inl (Exception ''database unavailable'') :: exn + database"
  have v: "similarity_search_with_similarity (Inr broken_store) ''aws'' 5 (filter_query None)
     = Inl (Exception ''index unavailable'')"
    by (rule broken_store_raises)
  have f: "fallback_body ?down ''aws'' None 5 = Inl (Exception ''database unavailable'')"
    by (simp add: fallback_body_def)
  have r1: "search_documents (Inr broken_store) ?db ''aws'' None 5
     = Inr [project_chunk [\<lparr>d_document_id = ''doc1'', d_filename = ''resume.pdf''\<rparr>]
              (example_chunk 0 ''AWS score: 87/100'')]"
    using search_documents_error_handling[of "Inr broken_store" ?db "''aws''" None 5
        "Exception ''index unavailable''"] v example_fallback_body
    by blast
  have r2: "search_documents (Inr broken_store) ?down ''aws'' None 5 = Inr []"
    using search_documents_error_handling[of "Inr broken_store" ?down "''aws''" None 5
        "Exception ''index unavailable''" _ "Exception ''database unavailable''"] v f
    by blast
  show ?thesis using v f r1 r2 by (intro conjI)
qed


section \<open>Proofs: the score of fallback results\<close>









section \<open>Proofs: the grounding policy\<close>

lemma answer_from_results_Nil:
  "answer_from_results d q k [] = (Inr (no_context_answer q, None, []), [])"
  by (simp add: answer_from_results_def)

text \<open>
  Claim C1. When retrieval returns no candidate, the endpoint answers with the fixed
  no-relevant-information message of line 62 for the processed query, with no citations
  and an empty usage dictionary, and the list of calls of the generative model is empty.
  The course-content pipeline (\<open>search_and_generate_answer\<close>) answers with the fixed
  message of line 257, no citations and a usage dictionary of zeros, also without a call.
\<close>

theorem no_context_no_generation:
  "(search_documents (vector_store_service d) (mongo d) (preprocess_query (rq_query request))
       (rq_course_id request) (top_k_or_5 (rq_top_k request)) = Inr [] \<longrightarrow>
      document_chat_answer d request
        = (Inr \<lparr>answer = ''I couldn'' @ [CHR 0x27] @ ''t find any relevant information about ''
                  @ [CHR 0x27] @ preprocess_query (rq_query request) @ [CHR 0x27]
                  @ '' in the uploaded documents. Please try asking a different question or check if the relevant document has been uploaded correctly.'',
                citations = [], usage = []\<rparr>, []))
   \<and> (found = Inr [] \<longrightarrow>
        search_and_generate_answer d found q
          = (\<lparr>answer = ''I couldn'' @ [CHR 0x27] @ ''t find relevant information to answer your question. Please try rephrasing or check if the course content is available.'',
              citations = [],
              usage = [(''prompt_tokens'', 0), (''completion_tokens'', 0), (''total_tokens'', 0)]\<rparr>, []))"
  by (simp add: document_chat_answer_def answer_from_results_Nil search_and_generate_answer_def
      no_context_answer_def no_results_answer_def zero_usage_def Let_def)

lemma call_llm_calls: "length (snd (call_llm d q c)) = 1"
  by (simp add: call_llm_def Let_def)

lemma rerank_Nil_iff: "rerank ql rs = [] \<longleftrightarrow> rs = []"
  using py_sorted_desc_Nil_iff by (simp add: rerank_def)

lemma answer_from_results_snd:
  "search_results \<noteq> [] \<Longrightarrow>
   snd (answer_from_results d q k search_results)
   = snd (call_llm d q (build_context (RAG_MAX_CONTEXT_LENGTH d) (format_2f d)
            (rerank (lower q) (py_take k search_results))))"
  by (simp add: answer_from_results_def Let_def split: prod.splits sum.splits)

lemma answer_from_results_calls:
  "search_results \<noteq> [] \<Longrightarrow> length (snd (answer_from_results d q k search_results)) = 1"
  by (simp add: answer_from_results_snd call_llm_calls)

lemma answer_from_results_Cons:
  "search_results \<noteq> [] \<Longrightarrow>
   answer_from_results d q k search_results
   = (case call_llm d q (build_context (RAG_MAX_CONTEXT_LENGTH d) (format_2f d)
                          (rerank (lower q) (py_take k search_results))) of
        (Inl e, calls) \<Rightarrow> (Inl e, calls)
      | (Inr (a, response), calls) \<Rightarrow>
          (Inr (a, response, rerank (lower q) (py_take k search_results)), calls))"
  by (simp add: answer_from_results_def Let_def split: prod.splits sum.splits)

lemma call_llm_fixed:
  "call_llm (example_deps store db a) q c
   = (Inr (a, Some \<lparr>message_content = Some a, completion_usage = [(''total_tokens'', 42)]\<rparr>),
      [([(''system'', ''You are a helpful document assistant.''), (''user'', user_prompt q c)],
        500, 1 / 10)])"
  by (simp add: call_llm_def example_deps_def fixed_llm_def Let_def)

lemma empty_search:
  "search_documents (Inr (fixed_store [] [])) (Inr (example_db [])) q None 5 = Inr []"
  by (simp add: search_documents_def vector_attempt_def similarity_search_with_similarity_def
      similarity_search_def fixed_store_def ranked_def document_fallback_text_search_def
      fallback_body_def example_db_def Let_def split: sum.splits)

lemma preprocess_aws: "preprocess_query ''What is the AWS score?'' = ''AWS score''"
  by code_simp

text \<open>
  The claim at an empty corpus: the question \<open>What is the AWS score?\<close> is processed to
  \<open>AWS score\<close>, nothing is found, and the fixed answer is returned without a call.
\<close>

theorem no_context_no_generation_witness:
  "search_documents (Inr (fixed_store [] [])) (Inr (example_db [])) ''AWS score'' None 5 = Inr []
   \<and> document_chat_answer
        (example_deps (Inr (fixed_store [] [])) (Inr (example_db [])) ''unused'')
        \<lparr>rq_query = ''What is the AWS score?'', rq_lang = Some ''en'', rq_top_k = Some 5,
         rq_course_id = None\<rparr>
     = (Inr \<lparr>answer = ''I couldn'' @ [CHR 0x27] @ ''t find any relevant information about ''
                  @ [CHR 0x27] @ ''AWS score'' @ [CHR 0x27]
                  @ '' in the uploaded documents. Please try asking a different question or check if the relevant document has been uploaded correctly.'',
             citations = [], usage = []\<rparr>, [])
   \<and> search_and_generate_answer
        (example_deps (Inr (fixed_store [] [])) (Inr (example_db [])) ''unused'')
        (Inr []) ''What is the AWS score?''
     = (\<lparr>answer = ''I couldn'' @ [CHR 0x27] @ ''t find relevant information to answer your question. Please try rephrasing or check if the course content is available.'',
         citations = [],
         usage = [(''prompt_tokens'', 0), (''completion_tokens'', 0), (''total_tokens'', 0)]\<rparr>, [])"
proof -
  let ?d = "example_deps (Inr (fixed_store [] [])) (Inr (example_db [])) ''unused''"
  let ?rq = "\<lparr>rq_query = ''What is the AWS score?'', rq_lang = Some ''en'', rq_top_k = Some 5,
         rq_course_id = None\<rparr>"
  have h: "search_documents (vector_store_service ?d) (mongo ?d) (preprocess_query (rq_query ?rq))
       (rq_course_id ?rq) (top_k_or_5 (rq_top_k ?rq)) = Inr []"
    by (simp add: example_deps_def top_k_or_5_def empty_search)
  note t = no_context_no_generation[of ?d ?rq "Inr []" "''What is the AWS score?''"]
  from t h have a: "document_chat_answer ?d ?rq
     = (Inr \<lparr>answer = ''I couldn'' @ [CHR 0x27] @ ''t find any relevant information about ''
                  @ [CHR 0x27] @ preprocess_query (rq_query ?rq) @ [CHR 0x27]
                  @ '' in the uploaded documents. Please try asking a different question or check if the relevant document has been uploaded correctly.'',
             citations = [], usage = []\<rparr>, [])"
    by blast
  from t have b: "search_and_generate_answer ?d (Inr []) ''What is the AWS score?''
     = (\<lparr>answer = ''I couldn'' @ [CHR 0x27] @ ''t find relevant information to answer your question. Please try rephrasing or check if the course content is available.'',
         citations = [],
         usage = [(''prompt_tokens'', 0), (''completion_tokens'', 0), (''total_tokens'', 0)]\<rparr>, [])"
    by blast
  have pq: "preprocess_query (rq_query ?rq) = ''AWS score''"
    by (simp add: preprocess_aws)
  show ?thesis using a b empty_search unfolding pq by (intro conjI)
qed

lemma preprocess_define: "preprocess_query ''define recursion'' = ''define recursion''"
  by code_simp

lemma general_define: "is_general_knowledge_query ''define recursion''"
  by code_simp

lemma hello_search:
  "search_documents (Inr (fixed_store [(example_doc ''hello world'', Num (9 / 10))] []))
     (Inr (example_db [])) ''define recursion'' None 5
   = Inr [vector_result (example_doc ''hello world'', 9 / 10)]"
  by (simp add: search_documents_def vector_attempt_def similarity_search_with_similarity_def
      fixed_store_def raw_similarity_def clamp01_def filter_query_def py_sorted_desc_def)

lemma hello_no_overlap:
  "\<not> query_word_in_documents ''define recursion''
        [vector_result (example_doc ''hello world'', 9 / 10)]"
  by (simp add: query_word_in_documents_def vector_result_def example_doc_def lower_def
      lower_char_def ascii_upper_def ascii_lower_def split_def is_space_def Let_def)

lemma hello_rerank:
  "rerank ql (py_take 5 [vector_result (example_doc ''hello world'', 9 / 10)])
   = [vector_result (example_doc ''hello world'', 9 / 10)]"
  by (simp add: rerank_def py_take_def py_sorted_desc_def)

text \<open>
  Claim C2, evaluated at the query \<open>define recursion\<close> against a corpus whose only passage
  is \<open>hello world\<close>. The query matches a general-knowledge indicator and none of its words
  occurs in the passage, so line 101 sets the general-knowledge message; but \<open>response\<close> is
  still \<open>None\<close> at line 111, the generative model is called once and its text replaces the
  message.
\<close>

theorem general_knowledge_branch_still_generates:
  "is_general_knowledge_query (preprocess_query ''define recursion'')
   \<and> \<not> query_word_in_documents (preprocess_query ''define recursion'')
        [vector_result (example_doc ''hello world'', 9 / 10)]
   \<and> fst (document_chat_answer
        (example_deps (Inr (fixed_store [(example_doc ''hello world'', Num (9 / 10))] []))
           (Inr (example_db [])) ''Recursion is when a function calls itself.'')
        \<lparr>rq_query = ''define recursion'', rq_lang = Some ''en'', rq_top_k = Some 5,
         rq_course_id = None\<rparr>)
     = Inr \<lparr>answer = ''Recursion is when a function calls itself.'',
            citations = [\<lparr>source_id = ''doc1'', title = ''resume.pdf'', content = ''hello world'',
                          confidence = 9 / 10, cit_page_number = Some 1,
                          cit_course_id = ''doc1''\<rparr>],
            usage = [(''total_tokens'', 42)]\<rparr>
   \<and> length (snd (document_chat_answer
        (example_deps (Inr (fixed_store [(example_doc ''hello world'', Num (9 / 10))] []))
           (Inr (example_db [])) ''Recursion is when a function calls itself.'')
        \<lparr>rq_query = ''define recursion'', rq_lang = Some ''en'', rq_top_k = Some 5,
         rq_course_id = None\<rparr>)) = 1"
proof -
  let ?v = "vector_result (example_doc ''hello world'', 9 / 10)"
  let ?S = "Inr (fixed_store [(example_doc ''hello world'', Num (9 / 10))] [])"
  let ?d = "example_deps ?S (Inr (example_db [])) ''Recursion is when a function calls itself.''"
  have afr: "answer_from_results ?d ''define recursion'' 5 [?v]
     = (Inr (''Recursion is when a function calls itself.'',
             Some \<lparr>message_content = Some ''Recursion is when a function calls itself.'',
                   completion_usage = [(''total_tokens'', 42)]\<rparr>, [?v]),
        [([(''system'', ''You are a helpful document assistant.''),
           (''user'', user_prompt ''define recursion''
              (build_context (RAG_MAX_CONTEXT_LENGTH ?d) (format_2f ?d) [?v]))], 500, 1 / 10)])"
    by (simp add: answer_from_results_Cons call_llm_fixed hello_rerank)
  have cit: "make_citations [?v]
     = Inr [\<lparr>source_id = ''doc1'', title = ''resume.pdf'', content = ''hello world'',
             confidence = 9 / 10, cit_page_number = Some 1, cit_course_id = ''doc1''\<rparr>]"
    by (simp add: make_citation_def vector_result_def example_doc_def get_default_def
        of_option_def)
  have sd: "search_documents (vector_store_service ?d) (mongo ?d) ''define recursion'' None 5
     = Inr [?v]"
    by (simp add: example_deps_def hello_search)
  have dca: "document_chat_answer ?d
        \<lparr>rq_query = ''define recursion'', rq_lang = Some ''en'', rq_top_k = Some 5,
         rq_course_id = None\<rparr>
     = (Inr \<lparr>answer = ''Recursion is when a function calls itself.'',
            citations = [\<lparr>source_id = ''doc1'', title = ''resume.pdf'', content = ''hello world'',
                          confidence = 9 / 10, cit_page_number = Some 1,
                          cit_course_id = ''doc1''\<rparr>],
            usage = [(''total_tokens'', 42)]\<rparr>,
        [([(''system'', ''You are a helpful document assistant.''),
           (''user'', user_prompt ''define recursion''
              (build_context (RAG_MAX_CONTEXT_LENGTH ?d) (format_2f ?d) [?v]))], 500, 1 / 10)])"
    unfolding document_chat_answer_def
    by (simp add: preprocess_define top_k_or_5_def sd afr cit Let_def del: make_citations.simps)
  show ?thesis
    unfolding dca by (simp add: preprocess_define general_define hello_no_overlap)
qed

section \<open>Proofs: context assembly\<close>

lemma context_parts_budget:
  "used + int (sum_list (map length (context_parts limit fmt i used rs))) \<le> max used limit"
proof (induction rs arbitrary: i used)
  case Nil
  show ?case by simp
next
  case (Cons r rs)
  let ?n = "int (length (source_text fmt i r))"
  show ?case
  proof (cases "used + ?n > limit")
    case True
    then show ?thesis by simp
  next
    case False
    have "used + ?n + int (sum_list (map length (context_parts limit fmt (Suc i) (used + ?n) rs)))
          \<le> max (used + ?n) limit"
      by (rule Cons.IH)
    then show ?thesis using False by simp
  qed
qed

text \<open>
  Claim C4 (amended). The assembled context starts with the source block of the top-ranked
  passage, and is not empty, when that block fits the character budget; when the block
  alone exceeds the budget, no source is included and the context is the empty string.
  With a non-negative budget the included blocks never exceed it in total.
\<close>

theorem context_first_passage_iff_fits:
  "(int (length (source_text fmt 1 r)) \<le> limit \<longrightarrow>
      (\<exists>more. context_parts limit fmt 1 0 (r # rs) = source_text fmt 1 r # more)
      \<and> build_context limit fmt (r # rs) \<noteq> [])
   \<and> (int (length (source_text fmt 1 r)) > limit \<longrightarrow>
        context_parts limit fmt 1 0 (r # rs) = [] \<and> build_context limit fmt (r # rs) = [])
   \<and> (0 \<le> limit \<longrightarrow>
        int (sum_list (map length (context_parts limit fmt 1 0 (r # rs)))) \<le> limit)"
proof -
  have ne: "source_text fmt 1 r \<noteq> []" by (simp add: source_text_def)
  have join_ne: "\<And>p ps. p \<noteq> [] \<Longrightarrow> join [CHR 0x0A, CHR 0x0A] (p # ps) \<noteq> []"
  proof -
    fix p :: string and ps
    assume "p \<noteq> []"
    then show "join [CHR 0x0A, CHR 0x0A] (p # ps) \<noteq> []" by (cases ps) simp_all
  qed
  have a: "int (length (source_text fmt 1 r)) \<le> limit \<longrightarrow>
      (\<exists>more. context_parts limit fmt 1 0 (r # rs) = source_text fmt 1 r # more)
      \<and> build_context limit fmt (r # rs) \<noteq> []"
    using join_ne[OF ne] by (simp add: build_context_def)
  have b: "int (length (source_text fmt 1 r)) > limit \<longrightarrow>
        context_parts limit fmt 1 0 (r # rs) = [] \<and> build_context limit fmt (r # rs) = []"
    by (simp add: build_context_def)
  have c0: "0 + int (sum_list (map length (context_parts limit fmt 1 0 (r # rs)))) \<le> max 0 limit"
    by (rule context_parts_budget)
  have c: "0 \<le> limit \<longrightarrow>
        int (sum_list (map length (context_parts limit fmt 1 0 (r # rs)))) \<le> limit"
  proof
    assume "0 \<le> limit"
    then have "max 0 limit = limit" by simp
    with c0 show "int (sum_list (map length (context_parts limit fmt 1 0 (r # rs)))) \<le> limit"
      by (simp del: context_parts.simps)
  qed
  show ?thesis using a b c by blast
qed

lemma long_source_text:
  "length (source_text fmt i (vector_result (example_doc (replicate 4000 CHR ''a''), 9 / 10))) > 4000"
  by (simp add: source_text_def vector_result_def example_doc_def)

text \<open>
  Where claim C4 fails as stated: with the default budget of 4000 characters and a single
  candidate whose text has 4000 characters, the source block is longer than the budget and
  the assembled context is empty.
\<close>

theorem context_empty_counterexample:
  "context_parts 4000 (\<lambda>x. ''0.90'') 1 0
     [vector_result (example_doc (replicate 4000 CHR ''a''), 9 / 10)] = []
   \<and> build_context 4000 (\<lambda>x. ''0.90'')
     [vector_result (example_doc (replicate 4000 CHR ''a''), 9 / 10)] = []"
  using long_source_text[of "\<lambda>x. ''0.90''" 1] by (simp add: build_context_def)

lemma short_source_text:
  "source_text (\<lambda>x. ''0.90'') 1 (vector_result (example_doc ''AWS score: 87/100'', 9 / 10))
   = ''Source 1 (from resume.pdf, page 1, relevance: 0.90):'' @ [CHR 0x0A] @ ''AWS score: 87/100''"
  by (simp add: source_text_def vector_result_def example_doc_def get_default_def of_option_def
      render_str_def render_int_def str_int_def str_nat.simps digit_char_def)

text \<open>
  The amended claim at the budget 4000: a short passage is included, a passage of 4000
  characters is not.
\<close>

theorem context_first_passage_iff_fits_witness:
  "int (length (source_text (\<lambda>x. ''0.90'') 1
          (vector_result (example_doc ''AWS score: 87/100'', 9 / 10)))) \<le> 4000
   \<and> build_context 4000 (\<lambda>x. ''0.90'')
        [vector_result (example_doc ''AWS score: 87/100'', 9 / 10)] \<noteq> []
   \<and> int (length (source_text (\<lambda>x. ''0.90'') 1
          (vector_result (example_doc (replicate 4000 CHR ''a''), 9 / 10)))) > 4000
   \<and> build_context 4000 (\<lambda>x. ''0.90'')
        [vector_result (example_doc (replicate 4000 CHR ''a''), 9 / 10)] = []
   \<and> (0::int) \<le> 4000
   \<and> int (sum_list (map length (context_parts 4000 (\<lambda>x. ''0.90'') 1 0
        [vector_result (example_doc ''AWS score: 87/100'', 9 / 10)]))) \<le> 4000"
proof -
  let ?f = "\<lambda>x::real. ''0.90''"
  let ?s = "vector_result (example_doc ''AWS score: 87/100'', 9 / 10)"
  let ?l = "vector_result (example_doc (replicate 4000 CHR ''a''), 9 / 10)"
  have h1: "int (length (source_text ?f 1 ?s)) \<le> 4000"
    unfolding short_source_text by simp
  have h2: "int (length (source_text ?f 1 ?l)) > 4000"
    using long_source_text[of ?f 1] by simp
  from context_first_passage_iff_fits[of ?f ?s 4000 "[]"] h1
  have a: "build_context 4000 ?f [?s] \<noteq> []"
    and c: "int (sum_list (map length (context_parts 4000 ?f 1 0 [?s]))) \<le> 4000"
    by simp_all
  from context_first_passage_iff_fits[of ?f ?l 4000 "[]"] h2
  have b: "build_context 4000 ?f [?l] = []" by simp
  show ?thesis using h1 h2 a b c by simp
qed

section \<open>Proofs: query rewriting and the general-knowledge test\<close>

lemma rewritten_not_general:
  "list_all (\<lambda>x. \<not> is_general_knowledge_query x) rewritten_queries"
  by code_simp

lemma preprocess_changed:
  "preprocess_query q0 \<noteq> normalize_query (Some q0) \<Longrightarrow> preprocess_query q0 \<in> set rewritten_queries"
  by (auto simp: preprocess_query_def rewritten_queries_def Let_def split: if_splits)

text \<open>
  Claim C10 (amended). All tests are on the lower-cased normalised query. A query with
  \<open>what is the\<close> and \<open>score\<close> becomes \<open>AWS score\<close>, \<open>CGPA\<close> or \<open>Leetcode rating\<close> after the
  first of \<open>aws\<close>, \<open>cgpa\<close>, \<open>leetcode\<close> it contains, and stays as normalised when it contains
  none. A query without that pair, with \<open>what is\<close>, becomes \<open>certificates\<close>, \<open>LinkedIn\<close> or
  \<open>projects\<close> after the first of \<open>certificate\<close>, \<open>linkedin\<close>, \<open>project\<close> it contains. Every query
  the rewriting changed is one of these six, and the general-knowledge test is false on it.
\<close>

theorem rewritten_query_not_general_knowledge:
  "(py_in ''what is the'' (lower (normalize_query (Some q0)))
      \<and> py_in ''score'' (lower (normalize_query (Some q0))) \<longrightarrow>
      (py_in ''aws'' (lower (normalize_query (Some q0))) \<longrightarrow> preprocess_query q0 = ''AWS score'')
      \<and> (\<not> py_in ''aws'' (lower (normalize_query (Some q0)))
          \<and> py_in ''cgpa'' (lower (normalize_query (Some q0))) \<longrightarrow> preprocess_query q0 = ''CGPA'')
      \<and> (\<not> py_in ''aws'' (lower (normalize_query (Some q0)))
          \<and> \<not> py_in ''cgpa'' (lower (normalize_query (Some q0)))
          \<and> py_in ''leetcode'' (lower (normalize_query (Some q0))) \<longrightarrow>
            preprocess_query q0 = ''Leetcode rating'')
      \<and> (\<not> py_in ''aws'' (lower (normalize_query (Some q0)))
          \<and> \<not> py_in ''cgpa'' (lower (normalize_query (Some q0)))
          \<and> \<not> py_in ''leetcode'' (lower (normalize_query (Some q0))) \<longrightarrow>
            preprocess_query q0 = normalize_query (Some q0)))
   \<and> (\<not> (py_in ''what is the'' (lower (normalize_query (Some q0)))
           \<and> py_in ''score'' (lower (normalize_query (Some q0))))
        \<and> py_in ''what is'' (lower (normalize_query (Some q0))) \<longrightarrow>
      (py_in ''certificate'' (lower (normalize_query (Some q0))) \<longrightarrow>
         preprocess_query q0 = ''certificates'')
      \<and> (\<not> py_in ''certificate'' (lower (normalize_query (Some q0)))
          \<and> py_in ''linkedin'' (lower (normalize_query (Some q0))) \<longrightarrow>
            preprocess_query q0 = ''LinkedIn'')
      \<and> (\<not> py_in ''certificate'' (lower (normalize_query (Some q0)))
          \<and> \<not> py_in ''linkedin'' (lower (normalize_query (Some q0)))
          \<and> py_in ''project'' (lower (normalize_query (Some q0))) \<longrightarrow>
            preprocess_query q0 = ''projects''))
   \<and> (preprocess_query q0 \<noteq> normalize_query (Some q0) \<longrightarrow>
        preprocess_query q0 \<in> set rewritten_queries
        \<and> \<not> is_general_knowledge_query (preprocess_query q0))"
proof -
  let ?ql = "lower (normalize_query (Some q0))"
  have a: "py_in ''what is the'' ?ql \<and> py_in ''score'' ?ql \<longrightarrow>
      (py_in ''aws'' ?ql \<longrightarrow> preprocess_query q0 = ''AWS score'')
      \<and> (\<not> py_in ''aws'' ?ql \<and> py_in ''cgpa'' ?ql \<longrightarrow> preprocess_query q0 = ''CGPA'')
      \<and> (\<not> py_in ''aws'' ?ql \<and> \<not> py_in ''cgpa'' ?ql \<and> py_in ''leetcode'' ?ql \<longrightarrow>
            preprocess_query q0 = ''Leetcode rating'')
      \<and> (\<not> py_in ''aws'' ?ql \<and> \<not> py_in ''cgpa'' ?ql \<and> \<not> py_in ''leetcode'' ?ql \<longrightarrow>
            preprocess_query q0 = normalize_query (Some q0))"
    by (simp add: preprocess_query_def Let_def)
  have b: "\<not> (py_in ''what is the'' ?ql \<and> py_in ''score'' ?ql) \<and> py_in ''what is'' ?ql \<longrightarrow>
      (py_in ''certificate'' ?ql \<longrightarrow> preprocess_query q0 = ''certificates'')
      \<and> (\<not> py_in ''certificate'' ?ql \<and> py_in ''linkedin'' ?ql \<longrightarrow>
            preprocess_query q0 = ''LinkedIn'')
      \<and> (\<not> py_in ''certificate'' ?ql \<and> \<not> py_in ''linkedin'' ?ql \<and> py_in ''project'' ?ql \<longrightarrow>
            preprocess_query q0 = ''projects'')"
    by (auto simp: preprocess_query_def Let_def)
  have c: "preprocess_query q0 \<noteq> normalize_query (Some q0) \<longrightarrow>
        preprocess_query q0 \<in> set rewritten_queries
        \<and> \<not> is_general_knowledge_query (preprocess_query q0)"
    using preprocess_changed[of q0] rewritten_not_general
    unfolding list_all_iff by blast
  show ?thesis using a b c by blast
qed

text \<open>
  Where claim C10 fails as stated: \<open>what is the score of my project\<close> contains \<open>what is\<close>
  and \<open>project\<close>, but the first test (\<open>what is the\<close> with \<open>score\<close>) applies and names none of
  its three keywords, so the query is not rewritten and the general-knowledge test holds.
\<close>

theorem rewrite_precedence_counterexample:
  "py_in ''what is'' (lower (normalize_query (Some ''what is the score of my project'')))
   \<and> py_in ''project'' (lower (normalize_query (Some ''what is the score of my project'')))
   \<and> preprocess_query ''what is the score of my project'' \<noteq> ''projects''
   \<and> preprocess_query ''what is the score of my project'' = ''what is the score of my project''
   \<and> is_general_knowledge_query (preprocess_query ''what is the score of my project'')"
  by code_simp

text \<open>
  The amended claim at \<open>What is the AWS score?\<close> (first shape) and \<open>what is my proj?\<close>
  (second shape, after the normaliser turned \<open>proj\<close> into \<open>project\<close>).
\<close>

theorem rewritten_query_not_general_knowledge_witness:
  "py_in ''what is the'' (lower (normalize_query (Some ''What is the AWS score?'')))
   \<and> py_in ''score'' (lower (normalize_query (Some ''What is the AWS score?'')))
   \<and> py_in ''aws'' (lower (normalize_query (Some ''What is the AWS score?'')))
   \<and> preprocess_query ''What is the AWS score?'' = ''AWS score''
   \<and> preprocess_query ''What is the AWS score?'' \<noteq> normalize_query (Some ''What is the AWS score?'')
   \<and> \<not> is_general_knowledge_query (preprocess_query ''What is the AWS score?'')
   \<and> \<not> (py_in ''what is the'' (lower (normalize_query (Some ''what is my proj?'')))
         \<and> py_in ''score'' (lower (normalize_query (Some ''what is my proj?''))))
   \<and> py_in ''what is'' (lower (normalize_query (Some ''what is my proj?'')))
   \<and> py_in ''project'' (lower (normalize_query (Some ''what is my proj?'')))
   \<and> preprocess_query ''what is my proj?'' = ''projects''
   \<and> \<not> is_general_knowledge_query (preprocess_query ''what is my proj?'')"
proof -
  let ?q1 = "''What is the AWS score?''"
  let ?q2 = "''what is my proj?''"
  have h1: "py_in ''what is the'' (lower (normalize_query (Some ?q1)))
     \<and> py_in ''score'' (lower (normalize_query (Some ?q1)))
     \<and> py_in ''aws'' (lower (normalize_query (Some ?q1)))"
    by code_simp
  have n1: "normalize_query (Some ?q1) \<noteq> ''AWS score''" by code_simp
  have h2: "\<not> (py_in ''what is the'' (lower (normalize_query (Some ?q2)))
         \<and> py_in ''score'' (lower (normalize_query (Some ?q2))))
     \<and> py_in ''what is'' (lower (normalize_query (Some ?q2)))
     \<and> \<not> py_in ''certificate'' (lower (normalize_query (Some ?q2)))
     \<and> \<not> py_in ''linkedin'' (lower (normalize_query (Some ?q2)))
     \<and> py_in ''project'' (lower (normalize_query (Some ?q2)))"
    by code_simp
  have n2: "normalize_query (Some ?q2) \<noteq> ''projects''" by code_simp
  note t1 = rewritten_query_not_general_knowledge[of ?q1]
  note t2 = rewritten_query_not_general_knowledge[of ?q2]
  from t1 h1 have p1: "preprocess_query ?q1 = ''AWS score''" by blast
  from t2 h2 have p2: "preprocess_query ?q2 = ''projects''" by blast
  from t1 p1 n1 have g1: "\<not> is_general_knowledge_query (preprocess_query ?q1)" by metis
  from t2 p2 n2 have g2: "\<not> is_general_knowledge_query (preprocess_query ?q2)" by metis
  show ?thesis using h1 h2 p1 p2 n1 g1 g2 by simp
qed

end
